theory Spec2Isabelle
  imports Main "HOL-Library.AList" "HOL-Library.Char_ord" "HOL-Library.List_Lexorder"
begin

section \<open>Python values used by the bot\<close>

text \<open>
  A Python \<open>str\<close> is modelled by the bytes of its UTF-8 encoding, a \<^typ>\<open>string\<close>.
  Equality, concatenation, \<open>startswith\<close> with an ASCII prefix and the order \<open>sorted\<close>
  uses (by code point) are the same on both sides of that encoding.  User identifiers
  and counters are Python integers, hence \<^typ>\<open>int\<close>.

  \<open>str.isdigit\<close> and \<open>int\<close> look at the code points of a text, so the bytes are decoded
  first.  Which code points beyond ASCII are digits is a matter of the Unicode database
  of the interpreter; that part of the table is a parameter of the model.
\<close>

definition digit_char :: "nat \<Rightarrow> char" where
  "digit_char d = char_of (48 + d)"

definition digit_val :: "char \<Rightarrow> nat" where
  "digit_val c = of_char c - 48"

definition is_ascii_digit :: "char \<Rightarrow> bool" where
  "is_ascii_digit c = (48 \<le> (of_char c :: nat) \<and> (of_char c :: nat) \<le> 57)"

text \<open>\<open>str(n)\<close> for a natural number, most significant digit first.\<close>

function str_nat :: "nat \<Rightarrow> string" where
  "str_nat n = (if n < 10 then [digit_char n] else str_nat (n div 10) @ [digit_char (n mod 10)])"
  by pat_completeness auto
termination
  by (relation "measure id") auto

declare str_nat.simps [simp del]

text \<open>\<open>str(i)\<close>, also what an f-string writes for an integer field.\<close>

definition str_int :: "int \<Rightarrow> string" where
  "str_int i = (if i < 0 then CHR ''-'' # str_nat (nat (- i)) else str_nat (nat i))"

text \<open>
  The code points of a text.  A lead byte below \<open>0xC0\<close> stands for itself; a lead byte
  below \<open>0xE0\<close>, \<open>0xF0\<close> or above opens a sequence of two, three or four bytes.  Every
  text of the program is the encoding of a Python string; on other byte sequences the
  result has no meaning.
\<close>

fun utf8_decode :: "nat list \<Rightarrow> nat list" where
  "utf8_decode [] = []"
| "utf8_decode [a] = [a]"
| "utf8_decode [a, b] =
     (if a < 0xC0 then a # utf8_decode [b]
      else if a < 0xE0 then [(a - 0xC0) * 64 + (b - 0x80)]
      else [a])"
| "utf8_decode [a, b, c] =
     (if a < 0xC0 then a # utf8_decode [b, c]
      else if a < 0xE0 then ((a - 0xC0) * 64 + (b - 0x80)) # utf8_decode [c]
      else if a < 0xF0 then [(a - 0xE0) * 4096 + (b - 0x80) * 64 + (c - 0x80)]
      else [a])"
| "utf8_decode (a # b # c # d # r) =
     (if a < 0xC0 then a # utf8_decode (b # c # d # r)
      else if a < 0xE0 then ((a - 0xC0) * 64 + (b - 0x80)) # utf8_decode (c # d # r)
      else if a < 0xF0 then
        ((a - 0xE0) * 4096 + (b - 0x80) * 64 + (c - 0x80)) # utf8_decode (d # r)
      else ((a - 0xF0) * 262144 + (b - 0x80) * 4096 + (c - 0x80) * 64 + (d - 0x80)) #
           utf8_decode r)"

definition code_points :: "string \<Rightarrow> nat list" where
  "code_points text = utf8_decode (map of_char text)"

text \<open>
  The Unicode database, as far as \<open>isdigit\<close> and \<open>int\<close> ask it about code points beyond
  ASCII: the value of a code point whose numeric type is Decimal (a digit of some script;
  the values are 0 to 9), and whether a code point has the numeric type Digit without
  being decimal (a superscript or circled digit, say).  In ASCII the decimal digits are
  the characters \<open>0\<close> to \<open>9\<close> and there are no other digits.
\<close>

record ucd =
  decimal_value :: "nat \<Rightarrow> nat option"
  other_digit :: "nat \<Rightarrow> bool"

definition decimal_of :: "ucd \<Rightarrow> nat \<Rightarrow> nat option" where
  "decimal_of U c =
     (if c < 128 then (if 48 \<le> c \<and> c \<le> 57 then Some (c - 48) else None)
      else decimal_value U c)"

definition is_digit_point :: "ucd \<Rightarrow> nat \<Rightarrow> bool" where
  "is_digit_point U c = (decimal_of U c \<noteq> None \<or> (128 \<le> c \<and> other_digit U c))"

text \<open>
  \<open>text.isdigit()\<close>: the text is not empty and each of its characters is a digit, decimal
  or not.
\<close>

definition isdigit :: "ucd \<Rightarrow> string \<Rightarrow> bool" where
  "isdigit U text = (code_points text \<noteq> [] \<and> list_all (is_digit_point U) (code_points text))"

text \<open>
  \<open>int(text)\<close> on a text that passed \<open>isdigit\<close>: the decimal digits of any script are read
  as a numeral in base ten; a digit that is not decimal makes \<open>int\<close> raise \<open>ValueError\<close>,
  whose text quotes the argument.
\<close>

datatype py_error = ValueError string

definition digits_value :: "nat list \<Rightarrow> nat" where
  "digits_value ds = foldl (\<lambda>a d. 10 * a + d) 0 ds"

definition invalid_literal :: "string \<Rightarrow> py_error" where
  "invalid_literal text =
     ValueError (''invalid literal for int() with base 10: '' @ [CHR 0x27] @ text @ [CHR 0x27])"

definition py_int :: "ucd \<Rightarrow> string \<Rightarrow> py_error + int" where
  "py_int U text =
     (case those (map (decimal_of U) (code_points text)) of
        None \<Rightarrow> Inl (invalid_literal text)
      | Some ds \<Rightarrow> if ds = [] then Inl (invalid_literal text) else Inr (int (digits_value ds)))"

text \<open>\<open>text.startswith(p)\<close>\<close>

definition startswith :: "string \<Rightarrow> string \<Rightarrow> bool" where
  "startswith s p = (take (length p) s = p)"

text \<open>
  A dict keeps its keys in insertion order.  It is an association list: \<^const>\<open>map_of\<close>
  reads a key, \<^const>\<open>AList.update\<close> is the assignment \<open>d[k] = v\<close> (in place when the key
  is there, appended when it is new) and \<^const>\<open>AList.map_entry\<close> changes the value under a
  key that is there.  Every dict of this program is read from JSON or built with \<open>str\<close>
  keys, so its keys are strings.

  Python's \<open>k in d\<close> compares keys with \<open>==\<close>, and an \<open>int\<close> is never equal to a \<open>str\<close>:
  asking for an integer key in such a dict answers \<open>False\<close>, whatever the dict holds.
\<close>

type_synonym 'v dict = "(string \<times> 'v) list"

datatype pykey = IntKey int | StrKey string

definition key_in :: "pykey \<Rightarrow> 'v dict \<Rightarrow> bool" where
  "key_in k d = (case k of IntKey i \<Rightarrow> False | StrKey s \<Rightarrow> s \<in> set (map fst d))"

section \<open>The daily log collection\<close>

text \<open>
  The shape \<open>log_response\<close> writes to \<open>bot_logs.json\<close>: one record per ISO date, with the
  aggregate counters, the per-user counters keyed by \<open>str(user_id)\<close> and the list of raw
  responses.
\<close>

record user_entry =
  username :: string
  user_total_responses :: int
  yes_count :: int
  no_count :: int

record response_entry =
  timestamp :: string
  user_id :: int
  entry_username :: string
  response :: string

record daily_log =
  date :: string
  total_responses :: int
  yes_responses :: int
  no_responses :: int
  users :: "user_entry dict"
  responses :: "response_entry list"

text \<open>
  Reading the log file either gives the collection or fails in one of the two ways the
  source names; the string is the text of the exception, \<open>str(e)\<close>.
\<close>

datatype read_error = FileNotFoundError string | JSONDecodeError string

datatype log_store = Unreadable read_error | Stored "daily_log dict"

fun error_text :: "read_error \<Rightarrow> string" where
  "error_text (FileNotFoundError m) = m"
| "error_text (JSONDecodeError m) = m"

text \<open>
  What a handler takes from its surroundings: \<open>date.today().isoformat()\<close>,
  \<open>datetime.now().isoformat()\<close>, the text of the exception when \<open>send_message\<close> to a chat
  fails (\<open>None\<close> when it is delivered), the text \<open>f"{(a / b) * 100:.1f}"\<close> of a
  floating-point percentage, which is not computed here, and the order in which the
  interpreter walks a set of integers, which Python does not fix.
\<close>

record env =
  today :: string
  now :: string
  send_error :: "int \<Rightarrow> string option"
  percent :: "int \<Rightarrow> int \<Rightarrow> string"
  set_order :: "int set \<Rightarrow> int list"

text \<open>
  Walking a set: its elements in the order of the interpreter.  Whatever the environment
  answers, the walk visits each element of a finite set once: the elements the answer
  names, in its order, then any it left out.
\<close>

definition walk :: "env \<Rightarrow> int set \<Rightarrow> int list" where
  "walk e A =
     (let named = remdups (filter (\<lambda>x. x \<in> A) (set_order e A))
      in named @ sorted_list_of_set (A - set named))"

text \<open>
  What a handler does to the outside, in order.  \<open>Uncaught\<close> closes the list when the
  handler ends with an exception that nothing in the source catches: what the handler
  changed before stays changed, and the framework goes on with the next update.
\<close>

type_synonym keyboard = "(string \<times> string) list list"

datatype effect =
    Reply string "keyboard option"
  | Edit string "keyboard option"
  | Answer "string option"
  | Send int string "keyboard option"
  | LogInfo string
  | LogError string
  | Print string
  | Uncaught py_error

subsection \<open>\<open>SimpleBot.log_response\<close>\<close>

definition new_day :: "string \<Rightarrow> daily_log" where
  "new_day d = \<lparr>date = d, total_responses = 0, yes_responses = 0, no_responses = 0,
                users = [], responses = []\<rparr>"

definition new_user :: "string \<Rightarrow> user_entry" where
  "new_user name = \<lparr>username = name, user_total_responses = 0, yes_count = 0, no_count = 0\<rparr>"

text \<open>\<open>logs = json.load(f)\<close>, with \<open>{}\<close> on \<open>JSONDecodeError\<close> and \<open>FileNotFoundError\<close>.\<close>

fun logs_or_empty :: "log_store \<Rightarrow> daily_log dict" where
  "logs_or_empty (Unreadable e) = []"
| "logs_or_empty (Stored logs) = logs"

text \<open>\<open>logs[today]\<close> after the \<open>if today not in logs\<close> block.\<close>

definition day_or_new :: "string \<Rightarrow> daily_log dict \<Rightarrow> daily_log" where
  "day_or_new d logs =
     (if \<not> key_in (StrKey d) logs then new_day d
      else case map_of logs d of Some day \<Rightarrow> day | None \<Rightarrow> new_day d)"

text \<open>
  The per-user block.  The test is \<open>user_id not in logs[today]['users']\<close> with the integer
  \<open>user_id\<close>, while every assignment and lookup goes through \<open>str(user_id)\<close>.
\<close>

definition count_user :: "int \<Rightarrow> string \<Rightarrow> string \<Rightarrow> user_entry dict \<Rightarrow> user_entry dict" where
  "count_user uid name resp us =
     (let us1 = (if \<not> key_in (IntKey uid) us
                 then AList.update (str_int uid) (new_user name) us else us);
          us2 = AList.map_entry (str_int uid)
                  (\<lambda>u. u\<lparr>user_total_responses := user_total_responses u + 1\<rparr>) us1
      in if resp = ''yes''
         then AList.map_entry (str_int uid) (\<lambda>u. u\<lparr>yes_count := yes_count u + 1\<rparr>) us2
         else AList.map_entry (str_int uid) (\<lambda>u. u\<lparr>no_count := no_count u + 1\<rparr>) us2)"

definition count_day :: "string \<Rightarrow> daily_log \<Rightarrow> daily_log" where
  "count_day resp day =
     (let day1 = day\<lparr>total_responses := total_responses day + 1\<rparr>
      in if resp = ''yes'' then day1\<lparr>yes_responses := yes_responses day1 + 1\<rparr>
         else day1\<lparr>no_responses := no_responses day1 + 1\<rparr>)"

definition log_response ::
  "env \<Rightarrow> log_store \<Rightarrow> int \<Rightarrow> string \<Rightarrow> string \<Rightarrow> string option \<Rightarrow> log_store \<times> effect list" where
  "log_response e store uid name resp ts =
     (let stamp = (case ts of None \<Rightarrow> now e | Some t \<Rightarrow> t);
          logs = logs_or_empty store;
          day1 = count_day resp (day_or_new (today e) logs);
          day2 = day1\<lparr>users := count_user uid name resp (users day1)\<rparr>;
          day3 = day2\<lparr>responses := responses day2 @
                   [\<lparr>timestamp = stamp, user_id = uid, entry_username = name, response = resp\<rparr>]\<rparr>
      in (Stored (AList.update (today e) day3 logs),
          [LogInfo (''Logged '' @ resp @ '' response from user '' @ name @
                    '' ('' @ str_int uid @ '')'')]))"

text \<open>Today's record as \<open>log_response\<close> and the statistics views find it in a store.\<close>

definition day_view :: "env \<Rightarrow> log_store \<Rightarrow> daily_log" where
  "day_view e store = day_or_new (today e) (logs_or_empty store)"

text \<open>The sum of the per-user totals of a day.\<close>

definition per_user_total :: "daily_log \<Rightarrow> int" where
  "per_user_total day = sum_list (map (\<lambda>(k, u). user_total_responses u) (users day))"

text \<open>
  A concrete environment for the examples: noon of 1 May 2024, every send delivered,
  sets walked in ascending order.
\<close>

definition env0 :: env where
  "env0 = \<lparr>today = ''2024-05-01'', now = ''2024-05-01T12:00:00'',
           send_error = (\<lambda>chat. None), percent = (\<lambda>a b. ''50.0''),
           set_order = sorted_list_of_set\<rparr>"

definition store0 :: log_store where
  "store0 = Stored
     [(''2024-04-30'',
       \<lparr>date = ''2024-04-30'', total_responses = 1, yes_responses = 1, no_responses = 0,
        users = [(''222'', \<lparr>username = ''@v'', user_total_responses = 1, yes_count = 1,
                              no_count = 0\<rparr>)],
        responses = [\<lparr>timestamp = ''2024-04-30T12:01:00'', user_id = 222,
                       entry_username = ''@v'', response = ''yes''\<rparr>]\<rparr>),
      (''2024-05-01'',
       \<lparr>date = ''2024-05-01'', total_responses = 1, yes_responses = 0, no_responses = 1,
        users = [(''222'', \<lparr>username = ''@v'', user_total_responses = 1, yes_count = 0,
                              no_count = 1\<rparr>)],
        responses = [\<lparr>timestamp = ''2024-05-01T11:00:00'', user_id = 222,
                       entry_username = ''@v'', response = ''no''\<rparr>]\<rparr>)]"

text \<open>
  A part of the Unicode database for the examples: the Arabic-Indic digits \<open>U+0660\<close> to
  \<open>U+0669\<close> and the Persian digits \<open>U+06F0\<close> to \<open>U+06F9\<close> are decimal; superscript two,
  three and one (\<open>U+00B2\<close>, \<open>U+00B3\<close>, \<open>U+00B9\<close>) are digits that are not decimal.
\<close>

definition ucd0 :: ucd where
  "ucd0 = \<lparr>decimal_value =
              (\<lambda>c. if 0x660 \<le> c \<and> c \<le> 0x669 then Some (c - 0x660)
                   else if 0x6F0 \<le> c \<and> c \<le> 0x6F9 then Some (c - 0x6F0) else None),
            other_digit = (\<lambda>c. c = 0xB2 \<or> c = 0xB3 \<or> c = 0xB9)\<rparr>"

text \<open>The Persian numeral 333 and a superscript two, in UTF-8.\<close>

definition persian_333 :: string where
  "persian_333 = [CHR 0xDB, CHR 0xB3, CHR 0xDB, CHR 0xB3, CHR 0xDB, CHR 0xB3]"

definition superscript_two :: string where
  "superscript_two = [CHR 0xC2, CHR 0xB2]"


subsection \<open>The fixed texts of the source\<close>

text \<open>
  Each text is the byte sequence of the literal in \<open>bot.py\<close>; bytes outside printable
  ASCII are written in hexadecimal.
\<close>

definition admin_code :: string where
  "admin_code =
     ''Admin2024''"

definition not_available :: string where
  "not_available =
     ''This command is not available.''"

definition not_in_admin_mode :: string where
  "not_in_admin_mode =
     ''You are not in admin mode.''"

definition admin_welcome_back :: string where
  "admin_welcome_back =
     ''Welcome back, Admin!\<newline>'' @ ''\<newline>'' @ ''Available Commands:\<newline>'' @
     ''/stats - View today's statistics\<newline>'' @
     ''/logs - View available log dates\<newline>'' @
     ''/broadcast - Send message to all users\<newline>'' @ ''\<newline>'' @
     ''You won't receive daily questions.''"

definition welcome_text :: string where
  "welcome_text =
     [CHR 0xC3, CHR 0x98, CHR 0xC2, CHR 0xB3, CHR 0xC3, CHR 0x99, CHR 0xE2, CHR 0x80] @
     [CHR 0x9E, CHR 0xC3, CHR 0x98, CHR 0xC2, CHR 0xA7, CHR 0xC3, CHR 0x99, CHR 0xE2] @
     [CHR 0x80, CHR 0xA6] @ '' '' @
     [CHR 0xC3, CHR 0x98, CHR 0xC2, CHR 0xAB, CHR 0xC3, CHR 0x98, CHR 0xC2, CHR 0xA7] @
     [CHR 0xC3, CHR 0x98, CHR 0xC2, CHR 0xB1, CHR 0xC3, CHR 0x9B, CHR 0xC5, CHR 0x92] @
     [CHR 0xC3, CHR 0x99, CHR 0xE2, CHR 0x80, CHR 0xA0, CHR 0xC3, CHR 0x98, CHR 0xC2] @
     [CHR 0xA7] @ ''! '' @
     [CHR 0xC4, CHR 0x9F, CHR 0xC5, CHR 0xB8, CHR 0xE2, CHR 0x80, CHR 0x98, CHR 0xE2] @
     [CHR 0x80, CHR 0xB9] @ ''\<newline>'' @ ''\<newline>'' @
     [CHR 0xC3, CHR 0x99, CHR 0xE2, CHR 0x80, CHR 0xA6, CHR 0xC3, CHR 0x99, CHR 0xE2] @
     [CHR 0x80, CHR 0xA0] @ '' '' @
     [CHR 0xC3, CHR 0x98, CHR 0xC2, CHR 0xA7, CHR 0xC3, CHR 0x9B, CHR 0xC5, CHR 0x92] @
     [CHR 0xC3, CHR 0x99, CHR 0xE2, CHR 0x80, CHR 0xA0, CHR 0xC3, CHR 0x98, CHR 0xC2] @
     [CHR 0xAC, CHR 0xC3, CHR 0x98, CHR 0xC2, CHR 0xA7, CHR 0xC3, CHR 0x99, CHR 0xE2] @
     [CHR 0x80, CHR 0xA6] @ '' '' @
     [CHR 0xC3, CHR 0x98, CHR 0xC2, CHR 0xAA, CHR 0xC3, CHR 0x98, CHR 0xC2, CHR 0xA7] @
     '' '' @
     [CHR 0xC3, CHR 0x98, CHR 0xC2, CHR 0xA8, CHR 0xC3, CHR 0x99, CHR 0xE2, CHR 0x80] @
     [CHR 0xA1, CHR 0xC3, CHR 0x98, CHR 0xC2, CHR 0xAA] @ '' '' @
     [CHR 0xC3, CHR 0x9B, CHR 0xC5, CHR 0x92, CHR 0xC3, CHR 0x98, CHR 0xC2, CHR 0xA7] @
     [CHR 0xC3, CHR 0x98, CHR 0xC2, CHR 0xAF, CHR 0xC3, CHR 0x98, CHR 0xC2, CHR 0xA2] @
     [CHR 0xC3, CHR 0x99, CHR 0xCB, CHR 0x86, CHR 0xC3, CHR 0x98, CHR 0xC2, CHR 0xB1] @
     [CHR 0xC3, CHR 0x9B, CHR 0xC5, CHR 0x92] @ '' '' @
     [CHR 0xC3, CHR 0x9A, CHR 0xC2, CHR 0xA9, CHR 0xC3, CHR 0x99, CHR 0xE2, CHR 0x80] @
     [CHR 0xA0, CHR 0xC3, CHR 0x99, CHR 0xE2, CHR 0x80, CHR 0xA6] @ '' '' @
     [CHR 0xC3, CHR 0x99, CHR 0xE2, CHR 0x80, CHR 0x9A, CHR 0xC3, CHR 0x98, CHR 0xC2] @
     [CHR 0xB1, CHR 0xC3, CHR 0x98, CHR 0xC2, CHR 0xB5, CHR 0xC3, CHR 0xA2, CHR 0xE2] @
     [CHR 0x82, CHR 0xAC, CHR 0xC5, CHR 0x92, CHR 0xC3, CHR 0x99, CHR 0xE2, CHR 0x80] @
     [CHR 0xA1, CHR 0xC3, CHR 0x98, CHR 0xC2, CHR 0xA7, CHR 0xC3, CHR 0x98, CHR 0xC2] @
     [CHR 0xAA] @ '' '' @
     [CHR 0xC3, CHR 0x98, CHR 0xC2, CHR 0xB1, CHR 0xC3, CHR 0x99, CHR 0xCB, CHR 0x86] @
     '' '' @
     [CHR 0xC3, CHR 0x98, CHR 0xC2, CHR 0xA8, CHR 0xC3, CHR 0x98, CHR 0xC2, CHR 0xAE] @
     [CHR 0xC3, CHR 0x99, CHR 0xCB, CHR 0x86, CHR 0xC3, CHR 0x98, CHR 0xC2, CHR 0xB1] @
     [CHR 0xC3, CHR 0x9B, CHR 0xC5, CHR 0x92] @ ''! '' @
     [CHR 0xC4, CHR 0x9F, CHR 0xC5, CHR 0xB8, CHR 0xE2, CHR 0x80, CHR 0x99, CHR 0xC5] @
     [CHR 0xA0]"

definition question_text :: string where
  "question_text =
     [CHR 0xC3, CHR 0x99, CHR 0xE2, CHR 0x80, CHR 0x9A, CHR 0xC3, CHR 0x98, CHR 0xC2] @
     [CHR 0xB1, CHR 0xC3, CHR 0x98, CHR 0xC2, CHR 0xB5, CHR 0xC3, CHR 0xA2, CHR 0xE2] @
     [CHR 0x82, CHR 0xAC, CHR 0xC5, CHR 0x92, CHR 0xC3, CHR 0x99, CHR 0xE2, CHR 0x80] @
     [CHR 0xA1, CHR 0xC3, CHR 0x98, CHR 0xC2, CHR 0xA7, CHR 0xC3, CHR 0x98, CHR 0xC2] @
     [CHR 0xAA] @ '' '' @
     [CHR 0xC3, CHR 0x98, CHR 0xC2, CHR 0xB1, CHR 0xC3, CHR 0x99, CHR 0xCB, CHR 0x86] @
     '' '' @
     [CHR 0xC3, CHR 0x98, CHR 0xC2, CHR 0xAE, CHR 0xC3, CHR 0x99, CHR 0xCB, CHR 0x86] @
     [CHR 0xC3, CHR 0x98, CHR 0xC2, CHR 0xB1, CHR 0xC3, CHR 0x98, CHR 0xC2, CHR 0xAF] @
     [CHR 0xC3, CHR 0x9B, CHR 0xC5, CHR 0x92, CHR 0xC3, CHR 0x98, CHR 0xC5, CHR 0xB8] @
     '' '' @
     [CHR 0xC4, CHR 0x9F, CHR 0xC5, CHR 0xB8, CHR 0xE2, CHR 0x80, CHR 0x99, CHR 0xC5] @
     [CHR 0xA0]"

definition yes_label :: string where
  "yes_label =
     [CHR 0xC3, CHR 0x98, CHR 0xC2, CHR 0xA8, CHR 0xC3, CHR 0x99, CHR 0xE2, CHR 0x80] @
     [CHR 0x9E, CHR 0xC3, CHR 0x99, CHR 0xE2, CHR 0x80, CHR 0xA1, CHR 0xC3, CHR 0x98] @
     [CHR 0xC5, CHR 0x92] @ '' '' @
     [CHR 0xC3, CHR 0x98, CHR 0xC2, CHR 0xAE, CHR 0xC3, CHR 0x99, CHR 0xCB, CHR 0x86] @
     [CHR 0xC3, CHR 0x98, CHR 0xC2, CHR 0xB1, CHR 0xC3, CHR 0x98, CHR 0xC2, CHR 0xAF] @
     [CHR 0xC3, CHR 0x99, CHR 0xE2, CHR 0x80, CHR 0xA6] @ ''! '' @
     [CHR 0xC3, CHR 0xA2, CHR 0xC5, CHR 0x93, CHR 0xE2, CHR 0x80, CHR 0xA6]"

definition no_label :: string where
  "no_label =
     [CHR 0xC3, CHR 0x99, CHR 0xE2, CHR 0x80, CHR 0xA1, CHR 0xC3, CHR 0x99, CHR 0xE2] @
     [CHR 0x80, CHR 0xA0, CHR 0xC3, CHR 0x99, CHR 0xCB, CHR 0x86, CHR 0xC3, CHR 0x98] @
     [CHR 0xC2, CHR 0xB2] @ '' '' @
     [CHR 0xC3, CHR 0x99, CHR 0xE2, CHR 0x80, CHR 0xA0, CHR 0xC3, CHR 0x99, CHR 0xE2] @
     [CHR 0x80, CHR 0xA1] @ '' '' @
     [CHR 0xC4, CHR 0x9F, CHR 0xC5, CHR 0xB8, CHR 0xCB, CHR 0x9C, CHR 0xE2, CHR 0x80] @
     [CHR 0xA6]"

definition username_lookup_text :: string where
  "username_lookup_text =
     ''Username lookup not implemented yet. Please use numeric user ID.\<newline>'' @
     ''You can find user IDs in the /users list.''"

definition invalid_format_text :: string where
  "invalid_format_text =
     ''Invalid user ID format. Please send a numeric user ID.''"

definition check_mark :: string where
  "check_mark =
     [CHR 0xC3, CHR 0xA2, CHR 0xC5, CHR 0x93, CHR 0xE2, CHR 0x80, CHR 0xA6]"

definition cross_mark :: string where
  "cross_mark =
     [CHR 0xC3, CHR 0xA2, CHR 0xC5, CHR 0x92]"

definition admin_granted_text :: string where
  "admin_granted_text =
     ''Admin access granted!\<newline>'' @ ''\<newline>'' @
     ''Available Commands:\<newline>'' @ ''/admin - Show admin menu with buttons\<newline>'' @
     ''/stats - View today's statistics\<newline>'' @
     ''/logs - View available log dates\<newline>'' @ ''/users - Manage users\<newline>'' @
     ''/exit - Exit admin mode\<newline>'' @ ''\<newline>'' @
     ''You won't receive daily questions.\<newline>'' @
     ''You'll get notifications when users select 'Yes'.''"

definition exit_text :: string where
  "exit_text =
     ''You've exited admin mode and are now a regular user.\<newline>'' @
     ''You'll receive daily questions again.\<newline>'' @ ''Use /start to continue.''"

definition no_data_text :: string where
  "no_data_text =
     ''No data available for today.''"

definition no_logs_text :: string where
  "no_logs_text =
     ''No logs available.''"

definition chart_icon :: string where
  "chart_icon =
     [CHR 0xC4, CHR 0x9F, CHR 0xC5, CHR 0xB8, CHR 0xE2, CHR 0x80, CHR 0x9C, CHR 0xC5] @
     [CHR 0xA0]"

definition folder_icon :: string where
  "folder_icon =
     [CHR 0xC4, CHR 0x9F, CHR 0xC5, CHR 0xB8, CHR 0xE2, CHR 0x80, CHR 0x9C]"

definition bullet :: string where
  "bullet =
     [CHR 0xC3, CHR 0xA2, CHR 0xE2, CHR 0x82, CHR 0xAC, CHR 0xC2, CHR 0xA2]"

definition back_label :: string where
  "back_label =
     [CHR 0xC3, CHR 0xA2, CHR 0xC2, CHR 0xAC, CHR 0xE2, CHR 0x80, CHR 0xA6, CHR 0xC3] @
     [CHR 0xAF, CHR 0xC2, CHR 0xB8] @ '' Back''"

definition stats_label :: string where
  "stats_label =
     [CHR 0xC4, CHR 0x9F, CHR 0xC5, CHR 0xB8, CHR 0xE2, CHR 0x80, CHR 0x9C, CHR 0xC5] @
     [CHR 0xA0] @ '' Statistics''"

definition logs_label :: string where
  "logs_label =
     [CHR 0xC4, CHR 0x9F, CHR 0xC5, CHR 0xB8, CHR 0xE2, CHR 0x80, CHR 0x9C] @ '' Logs''"

definition manage_users_label :: string where
  "manage_users_label =
     [CHR 0xC4, CHR 0x9F, CHR 0xC5, CHR 0xB8, CHR 0xE2, CHR 0x80, CHR 0x98, CHR 0xC2] @
     [CHR 0xA5] @ '' Manage Users''"

definition exit_admin_label :: string where
  "exit_admin_label =
     [CHR 0xC4, CHR 0x9F, CHR 0xC5, CHR 0xB8, CHR 0xC5, CHR 0xA1, CHR 0xC2, CHR 0xAA] @
     '' Exit Admin''"

definition refresh_label :: string where
  "refresh_label =
     [CHR 0xC4, CHR 0x9F, CHR 0xC5, CHR 0xB8, CHR 0xE2, CHR 0x80, CHR 0x9D, CHR 0xE2] @
     [CHR 0x80, CHR 0x9E] @ '' Refresh''"

definition thanks_text :: string where
  "thanks_text =
     [CHR 0xC3, CHR 0x98, CHR 0xC2, CHR 0xB9, CHR 0xC3, CHR 0x98, CHR 0xC2, CHR 0xA7] @
     [CHR 0xC3, CHR 0x99, CHR 0xE2, CHR 0x80, CHR 0x9E, CHR 0xC3, CHR 0x9B, CHR 0xC5] @
     [CHR 0x92, CHR 0xC3, CHR 0x99, CHR 0xE2, CHR 0x80, CHR 0xA1] @ ''! '' @
     [CHR 0xC4, CHR 0x9F, CHR 0xC5, CHR 0xB8, CHR 0xE2, CHR 0x80, CHR 0xB0] @ ''\<newline>'' @
     [CHR 0xC3, CHR 0x99, CHR 0xE2, CHR 0x80, CHR 0xA6, CHR 0xC3, CHR 0x99, CHR 0xE2] @
     [CHR 0x80, CHR 0xA6, CHR 0xC3, CHR 0x99, CHR 0xE2, CHR 0x80, CHR 0xA0, CHR 0xC3] @
     [CHR 0x99, CHR 0xCB, CHR 0x86, CHR 0xC3, CHR 0x99, CHR 0xE2, CHR 0x80, CHR 0xA0] @
     '' '' @
     [CHR 0xC3, CHR 0x9A, CHR 0xC2, CHR 0xA9, CHR 0xC3, CHR 0x99, CHR 0xE2, CHR 0x80] @
     [CHR 0xA1] @ '' '' @
     [CHR 0xC3, CHR 0x99, CHR 0xE2, CHR 0x80, CHR 0x9A, CHR 0xC3, CHR 0x98, CHR 0xC2] @
     [CHR 0xB1, CHR 0xC3, CHR 0x98, CHR 0xC2, CHR 0xB5, CHR 0xC3, CHR 0xA2, CHR 0xE2] @
     [CHR 0x82, CHR 0xAC, CHR 0xC5, CHR 0x92, CHR 0xC3, CHR 0x99, CHR 0xE2, CHR 0x80] @
     [CHR 0xA1, CHR 0xC3, CHR 0x98, CHR 0xC2, CHR 0xA7, CHR 0xC3, CHR 0x98, CHR 0xC2] @
     [CHR 0xAA] @ '' '' @
     [CHR 0xC3, CHR 0x98, CHR 0xC2, CHR 0xB1, CHR 0xC3, CHR 0x99, CHR 0xCB, CHR 0x86] @
     '' '' @
     [CHR 0xC3, CHR 0x98, CHR 0xC2, CHR 0xAE, CHR 0xC3, CHR 0x99, CHR 0xCB, CHR 0x86] @
     [CHR 0xC3, CHR 0x98, CHR 0xC2, CHR 0xB1, CHR 0xC3, CHR 0x98, CHR 0xC2, CHR 0xAF] @
     [CHR 0xC3, CHR 0x9B, CHR 0xC5, CHR 0x92] @ ''. '' @
     [CHR 0xC3, CHR 0x99, CHR 0xE2, CHR 0x80, CHR 0xA6, CHR 0xC3, CHR 0x98, CHR 0xC2] @
     [CHR 0xB1, CHR 0xC3, CHR 0x98, CHR 0xC2, CHR 0xA7, CHR 0xC3, CHR 0x99, CHR 0xE2] @
     [CHR 0x80, CHR 0x9A, CHR 0xC3, CHR 0x98, CHR 0xC2, CHR 0xA8] @ '' '' @
     [CHR 0xC3, CHR 0x98, CHR 0xC2, CHR 0xAE, CHR 0xC3, CHR 0x99, CHR 0xCB, CHR 0x86] @
     [CHR 0xC3, CHR 0x98, CHR 0xC2, CHR 0xAF, CHR 0xC3, CHR 0x98, CHR 0xC2, CHR 0xAA] @
     '' '' @
     [CHR 0xC3, CHR 0x98, CHR 0xC2, CHR 0xA8, CHR 0xC3, CHR 0x98, CHR 0xC2, CHR 0xA7] @
     [CHR 0xC3, CHR 0x98, CHR 0xC2, CHR 0xB4] @ ''! '' @
     [CHR 0xC4, CHR 0x9F, CHR 0xC5, CHR 0xB8, CHR 0xE2, CHR 0x80, CHR 0x99, CHR 0xC5] @
     [CHR 0xA1] @ ''\<newline>'' @ ''\<newline>'' @
     [CHR 0xC3, CHR 0x9A, CHR 0xC2, CHR 0xAF, CHR 0xC3, CHR 0x99, CHR 0xE2, CHR 0x80] @
     [CHR 0x9E] @ '' '' @
     [CHR 0xC3, CHR 0x98, CHR 0xC2, CHR 0xA8, CHR 0xC3, CHR 0x98, CHR 0xC2, CHR 0xB1] @
     [CHR 0xC3, CHR 0x98, CHR 0xC2, CHR 0xA7, CHR 0xC3, CHR 0x9B, CHR 0xC5, CHR 0x92] @
     '' '' @
     [CHR 0xC3, CHR 0x9A, CHR 0xC2, CHR 0xAF, CHR 0xC3, CHR 0x99, CHR 0xE2, CHR 0x80] @
     [CHR 0x9E] @ '' '' @
     [CHR 0xC4, CHR 0x9F, CHR 0xC5, CHR 0xB8, CHR 0xC5, CHR 0x92, CHR 0xC2, CHR 0xB8]"

definition ack_text :: string where
  "ack_text =
     [CHR 0xC3, CHR 0x98, CHR 0xC2, CHR 0xA7, CHR 0xC3, CHR 0x98, CHR 0xC2, CHR 0xB4] @
     [CHR 0xC3, CHR 0x9A, CHR 0xC2, CHR 0xA9, CHR 0xC3, CHR 0x98, CHR 0xC2, CHR 0xA7] @
     [CHR 0xC3, CHR 0x99, CHR 0xE2, CHR 0x80, CHR 0x9E, CHR 0xC3, CHR 0x9B, CHR 0xC5] @
     [CHR 0x92] @ '' '' @
     [CHR 0xC3, CHR 0x99, CHR 0xE2, CHR 0x80, CHR 0xA0, CHR 0xC3, CHR 0x98, CHR 0xC2] @
     [CHR 0xAF, CHR 0xC3, CHR 0x98, CHR 0xC2, CHR 0xA7, CHR 0xC3, CHR 0x98, CHR 0xC2] @
     [CHR 0xB1, CHR 0xC3, CHR 0x99, CHR 0xE2, CHR 0x80, CHR 0xA1] @ ''! '' @
     [CHR 0xC4, CHR 0x9F, CHR 0xC5, CHR 0xB8, CHR 0xCB, CHR 0x9C, CHR 0xC5, CHR 0xA0] @
     ''\<newline>'' @
     [CHR 0xC3, CHR 0x9B, CHR 0xC2, CHR 0xB1, CHR 0xC3, CHR 0x9B, CHR 0xC2, CHR 0xB5] @
     '' '' @
     [CHR 0xC3, CHR 0x98, CHR 0xC2, CHR 0xAF, CHR 0xC3, CHR 0x99, CHR 0xE2, CHR 0x80] @
     [CHR 0x9A, CHR 0xC3, CHR 0x9B, CHR 0xC5, CHR 0x92, CHR 0xC3, CHR 0x99, CHR 0xE2] @
     [CHR 0x80, CHR 0x9A, CHR 0xC3, CHR 0x99, CHR 0xE2, CHR 0x80, CHR 0xA1] @ '' '' @
     [CHR 0xC3, CHR 0x98, CHR 0xC2, CHR 0xAF, CHR 0xC3, CHR 0x9B, CHR 0xC5, CHR 0x92] @
     [CHR 0xC3, CHR 0x9A, CHR 0xC2, CHR 0xAF, CHR 0xC3, CHR 0x99, CHR 0xE2, CHR 0x80] @
     [CHR 0xA1] @ '' '' @
     [CHR 0xC3, CHR 0x98, CHR 0xC2, CHR 0xAF, CHR 0xC3, CHR 0x99, CHR 0xCB, CHR 0x86] @
     [CHR 0xC3, CHR 0x98, CHR 0xC2, CHR 0xA8, CHR 0xC3, CHR 0x98, CHR 0xC2, CHR 0xA7] @
     [CHR 0xC3, CHR 0x98, CHR 0xC2, CHR 0xB1, CHR 0xC3, CHR 0x99, CHR 0xE2, CHR 0x80] @
     [CHR 0xA1] @ '' '' @
     [CHR 0xC3, CHR 0x98, CHR 0xC2, CHR 0xA7, CHR 0xC3, CHR 0x98, CHR 0xC2, CHR 0xB2] @
     [CHR 0xC3, CHR 0x98, CHR 0xC2, CHR 0xAA] @ '' '' @
     [CHR 0xC3, CHR 0x99, CHR 0xE2, CHR 0x80, CHR 0xA6, CHR 0xC3, CHR 0x9B, CHR 0xC5] @
     [CHR 0x92, CHR 0xC3, CHR 0xA2, CHR 0xE2, CHR 0x82, CHR 0xAC, CHR 0xC5, CHR 0x92] @
     [CHR 0xC3, CHR 0x99, CHR 0xC2, CHR 0xBE, CHR 0xC3, CHR 0x98, CHR 0xC2, CHR 0xB1] @
     [CHR 0xC3, CHR 0x98, CHR 0xC2, CHR 0xB3, CHR 0xC3, CHR 0x99, CHR 0xE2, CHR 0x80] @
     [CHR 0xA6] @ ''...''"


section \<open>The bot\<close>

text \<open>
  The state a handler can read and change: the fields of the \<open>SimpleBot\<close> object, the
  two files it owns, the \<open>pending_action\<close> slot of each user's \<open>context.user_data\<close>, and
  the jobs handed to the job queue.  The roster file holds the two lists \<open>save_users\<close>
  writes; their order is not fixed by the source and \<open>load_users\<close> turns them into sets
  at once, so they are sets here.  A list of the file may be missing (\<open>load_users\<close> then
  takes the empty list) or be something \<open>set\<close> cannot take, which raises with the given
  text.

  Calls to the transport are recorded in the order they are made and succeed, except for
  the notification of an administrator, whose failure the source catches one recipient
  at a time.  Writing a file succeeds.
\<close>

datatype roster_field = Missing | Ids "int set" | BadField string

datatype users_store =
    NoUsersFile
  | BadUsersFile string
  | UsersFile roster_field roster_field

record job =
  job_name :: string
  job_when :: int
  job_chat_id :: int
  job_data_chat_id :: int

record tg_user =
  tg_id :: int
  tg_username :: "string option"
  first_name :: string
  last_name :: "string option"

record bot =
  user_states :: "int \<Rightarrow> string option"
  admin_users :: "int set"
  regular_users :: "int set"
  users_file :: users_store
  log_file :: log_store
  user_data :: "int \<Rightarrow> string option"
  job_queue :: "job list"

subsection \<open>Construction, \<open>load_users\<close> and \<open>save_users\<close>\<close>

fun ensure_log_file :: "log_store \<Rightarrow> log_store" where
  "ensure_log_file (Unreadable (FileNotFoundError m)) = Stored []"
| "ensure_log_file store = store"

text \<open>\<open>set(data.get(key, []))\<close> for a list that is missing or is a list of identifiers.\<close>

fun listed :: "roster_field \<Rightarrow> int set" where
  "listed Missing = {}"
| "listed (Ids A) = A"
| "listed (BadField m) = {}"

text \<open>
  \<open>load_users\<close> assigns the administrators, then the regular users, inside one \<open>try\<close>: a
  failure on the second list leaves the first assignment in place.
\<close>

definition load_users :: "bot \<Rightarrow> bot \<times> effect list" where
  "load_users s =
     (case users_file s of
        NoUsersFile \<Rightarrow> (s, [])
      | BadUsersFile m \<Rightarrow> (s, [LogError (''Failed to load users: '' @ m)])
      | UsersFile a r \<Rightarrow>
          (case a of
             BadField m \<Rightarrow> (s, [LogError (''Failed to load users: '' @ m)])
           | _ \<Rightarrow>
               let s1 = s\<lparr>admin_users := listed a\<rparr> in
               (case r of
                  BadField m \<Rightarrow> (s1, [LogError (''Failed to load users: '' @ m)])
                | _ \<Rightarrow>
                    (s1\<lparr>regular_users := listed r\<rparr>,
                     [LogInfo (''Loaded '' @ str_int (int (card (listed a))) @
                               '' admins and '' @ str_int (int (card (listed r))) @
                               '' regular users'')]))))"

definition save_users :: "bot \<Rightarrow> bot \<times> effect list" where
  "save_users s =
     (s\<lparr>users_file := UsersFile (Ids (admin_users s)) (Ids (regular_users s))\<rparr>,
      [LogInfo ''Users saved successfully''])"

text \<open>\<open>SimpleBot()\<close> on the files found at start.\<close>

definition init_bot :: "users_store \<Rightarrow> log_store \<Rightarrow> bot \<times> effect list" where
  "init_bot uf lf =
     load_users \<lparr>user_states = Map.empty, admin_users = {}, regular_users = {},
                 users_file = uf, log_file = ensure_log_file lf,
                 user_data = Map.empty, job_queue = []\<rparr>"

subsection \<open>The question\<close>

definition question_keyboard :: keyboard where
  "question_keyboard = [[(yes_label, ''yes''), (no_label, ''no'')]]"

text \<open>\<open>send_question\<close> after a command: there is no callback query, so it replies.\<close>

definition send_question :: "effect list" where
  "send_question = [Reply question_text (Some question_keyboard)]"

subsection \<open>\<open>start_command\<close>\<close>

definition start_command :: "bot \<Rightarrow> int \<Rightarrow> bot \<times> effect list" where
  "start_command s uid =
     (if uid \<in> admin_users s then (s, [Reply admin_welcome_back None])
      else
        let s1 = s\<lparr>user_states := (user_states s)(uid \<mapsto> ''active''),
                    regular_users := insert uid (regular_users s)\<rparr>;
            (s2, saved) = save_users s1
        in (s2, saved @ [Reply welcome_text None] @ send_question))"

subsection \<open>\<open>handle_message\<close>\<close>

text \<open>The two roster actions on a target, after \<open>target_user_id = int(text)\<close>.\<close>

definition perform_action :: "bot \<Rightarrow> string \<Rightarrow> int \<Rightarrow> bot \<times> effect list" where
  "perform_action s1 action target =
     (if action = ''user_make_admin'' then
        let s2 = s1\<lparr>regular_users :=
                      (if target \<in> regular_users s1 then regular_users s1 - {target}
                       else regular_users s1)\<rparr>;
            s3 = s2\<lparr>admin_users := insert target (admin_users s2)\<rparr>;
            (s4, saved) = save_users s3
        in (s4, saved @
              [Reply (check_mark @ '' User '' @ str_int target @ '' is now an admin.'') None])
      else if action = ''user_remove_admin'' then
        if target \<in> admin_users s1 then
          let s2 = s1\<lparr>admin_users := admin_users s1 - {target}\<rparr>;
              s3 = s2\<lparr>regular_users := insert target (regular_users s2)\<rparr>;
              (s4, saved) = save_users s3
          in (s4, saved @
                [Reply (check_mark @ '' User '' @ str_int target @
                        '' removed from admins.'') None])
        else
          (s1, [Reply (cross_mark @ '' User '' @ str_int target @ '' is not an admin.'') None])
      else (s1, []))"

text \<open>
  \<open>handle_message\<close>.  The pending action is deleted first; \<open>int(text)\<close> comes after
  \<open>text.isdigit()\<close> and its \<open>ValueError\<close> is not caught.
\<close>

definition handle_message :: "ucd \<Rightarrow> bot \<Rightarrow> int \<Rightarrow> string \<Rightarrow> bot \<times> effect list" where
  "handle_message U s uid text =
     (case (if uid \<in> admin_users s then user_data s uid else None) of
        Some action \<Rightarrow>
          let s1 = s\<lparr>user_data := (user_data s)(uid := None)\<rparr> in
          if isdigit U text then
            (case py_int U text of
               Inl err \<Rightarrow> (s1, [Uncaught err])
             | Inr target \<Rightarrow> perform_action s1 action target)
          else if startswith text ''@'' then (s1, [Reply username_lookup_text None])
          else (s1, [Reply invalid_format_text None])
      | None \<Rightarrow>
          if text = admin_code then
            let s1 = s\<lparr>admin_users := insert uid (admin_users s)\<rparr>;
                s2 = s1\<lparr>regular_users :=
                          (if uid \<in> regular_users s1 then regular_users s1 - {uid}
                           else regular_users s1)\<rparr>;
                (s3, saved) = save_users s2
            in (s3, saved @ [Reply admin_granted_text None])
          else (s, []))"

subsection \<open>Statistics: \<open>stats_command\<close> and \<open>show_stats_inline\<close>\<close>

definition user_line :: "string \<times> user_entry \<Rightarrow> string" where
  "user_line kv =
     ''  '' @ bullet @ '' '' @ username (snd kv) @ '': '' @ str_int (yes_count (snd kv)) @
     ''Yes '' @ str_int (no_count (snd kv)) @ ''No\<newline>''"

definition stats_text :: "env \<Rightarrow> string \<Rightarrow> daily_log \<Rightarrow> string" where
  "stats_text e title stats =
     title @ date stats @ ''\<newline>\<newline>'' @
     ''Total Responses: '' @ str_int (total_responses stats) @ ''\<newline>'' @
     ''Yes Responses: '' @ str_int (yes_responses stats) @ ''\<newline>'' @
     ''No Responses: '' @ str_int (no_responses stats) @ ''\<newline>\<newline>'' @
     (if total_responses stats > 0
      then ''Percentages:\<newline>'' @
           ''  Yes: '' @ percent e (yes_responses stats) (total_responses stats) @ ''%\<newline>'' @
           ''  No: '' @ percent e (no_responses stats) (total_responses stats) @
           ''%\<newline>\<newline>''
      else []) @
     (if users stats \<noteq> []
      then ''Active Users: '' @ str_int (int (length (users stats))) @ ''\<newline>'' @
           concat (map user_line (users stats))
      else [])"

definition back_keyboard :: keyboard where
  "back_keyboard = [[(back_label, ''admin_back'')]]"

definition show_stats_inline :: "env \<Rightarrow> bot \<Rightarrow> effect list" where
  "show_stats_inline e s =
     (case log_file s of
        Unreadable err \<Rightarrow>
          [Edit (''Error getting stats: '' @ error_text err) (Some back_keyboard)]
      | Stored logs \<Rightarrow>
          (case map_of logs (today e) of
             None \<Rightarrow> [Edit no_data_text (Some back_keyboard)]
           | Some stats \<Rightarrow>
               [Edit (stats_text e (chart_icon @ '' Daily Statistics - '') stats)
                  (Some back_keyboard)]))"

definition stats_command :: "env \<Rightarrow> bot \<Rightarrow> int \<Rightarrow> bot \<times> effect list" where
  "stats_command e s uid =
     (if uid \<notin> admin_users s then (s, [Reply not_available None])
      else case log_file s of
        Unreadable err \<Rightarrow> (s, [Reply (''Error getting stats: '' @ error_text err) None])
      | Stored logs \<Rightarrow>
          (case map_of logs (today e) of
             None \<Rightarrow> (s, [Reply no_data_text None])
           | Some stats \<Rightarrow> (s, [Reply (stats_text e ''Daily Statistics - '' stats) None])))"

subsection \<open>Log dates: \<open>logs_command\<close> and \<open>show_logs_inline\<close>\<close>

text \<open>
  The keys \<open>log_response\<close> writes are \<open>date.today().isoformat()\<close>: the standard library
  formats a date as the year in four digits, the month and the day in two digits each,
  with hyphens between them.
\<close>

definition two_digits :: "nat \<Rightarrow> string" where
  "two_digits n = [digit_char (n div 10), digit_char (n mod 10)]"

definition four_digits :: "nat \<Rightarrow> string" where
  "four_digits n = two_digits (n div 100) @ two_digits (n mod 100)"

definition isoformat :: "nat \<Rightarrow> nat \<Rightarrow> nat \<Rightarrow> string" where
  "isoformat y m d = four_digits y @ ''-'' @ two_digits m @ ''-'' @ two_digits d"

text \<open>\<open>sorted(logs.keys(), reverse=True)[:10]\<close>\<close>

definition listed_dates :: "daily_log dict \<Rightarrow> string list" where
  "listed_dates logs = take 10 (rev (sort (map fst logs)))"

text \<open>The two lines written for one date; \<open>logs[date_str]\<close> is there for a key of \<open>logs\<close>.\<close>

definition date_lines :: "daily_log dict \<Rightarrow> string \<Rightarrow> string" where
  "date_lines logs d =
     (case map_of logs d of
        None \<Rightarrow> []
      | Some stats \<Rightarrow>
          d @ ''\<newline>'' @
          ''  Total: '' @ str_int (total_responses stats) @
          '' | Yes: '' @ str_int (yes_responses stats) @
          '' | No: '' @ str_int (no_responses stats) @ ''\<newline>\<newline>'')"

definition dates_text :: "string \<Rightarrow> daily_log dict \<Rightarrow> string" where
  "dates_text header logs = header @ concat (map (date_lines logs) (listed_dates logs))"

definition show_logs_inline :: "bot \<Rightarrow> effect list" where
  "show_logs_inline s =
     (case log_file s of
        Unreadable err \<Rightarrow>
          [Edit (''Error getting logs: '' @ error_text err) (Some back_keyboard)]
      | Stored logs \<Rightarrow>
          (if logs = [] then [Edit no_logs_text (Some back_keyboard)]
           else [Edit (dates_text (folder_icon @ '' Available Log Dates:\<newline>\<newline>'') logs)
                   (Some back_keyboard)]))"

definition logs_command :: "bot \<Rightarrow> int \<Rightarrow> bot \<times> effect list" where
  "logs_command s uid =
     (if uid \<notin> admin_users s then (s, [Reply not_available None])
      else case log_file s of
        Unreadable err \<Rightarrow> (s, [Reply (''Error getting logs: '' @ error_text err) None])
      | Stored logs \<Rightarrow>
          (if logs = [] then (s, [Reply no_logs_text None])
           else (s, [Reply (dates_text ''Available Log Dates:\<newline>\<newline>'' logs) None])))"

subsection \<open>\<open>exit_command\<close>\<close>

definition exit_command :: "bot \<Rightarrow> int \<Rightarrow> bot \<times> effect list" where
  "exit_command s uid =
     (if uid \<notin> admin_users s then (s, [Reply not_in_admin_mode None])
      else
        let s1 = s\<lparr>admin_users := admin_users s - {uid}\<rparr>;
            s2 = s1\<lparr>regular_users := insert uid (regular_users s1)\<rparr>;
            (s3, saved) = save_users s2
        in (s3, saved @ [Reply exit_text None]))"

subsection \<open>The administrator's menu and the list of users\<close>

definition menu_text :: string where
  "menu_text =
     ''ADMIN PANEL\<newline>'' @ replicate 30 CHR ''='' @ ''\<newline>\<newline>'' @
     ''Select an option:\<newline>\<newline>'' @
     ''/stats - View today's statistics\<newline>'' @
     ''/logs - View available log dates\<newline>'' @
     ''/users - Manage users\<newline>'' @
     ''/exit - Exit admin mode\<newline>''"

definition menu_keyboard :: keyboard where
  "menu_keyboard =
     [[(stats_label, ''admin_stats''), (logs_label, ''admin_logs'')],
      [(manage_users_label, ''admin_users'')],
      [(exit_admin_label, ''admin_exit'')]]"

text \<open>\<open>build_admin_menu\<close>\<close>

definition build_admin_menu :: "string \<times> keyboard" where
  "build_admin_menu = (menu_text, menu_keyboard)"

record user_summary =
  summary_username :: string
  total_yes :: int
  total_no :: int
  first_seen :: string
  last_seen :: string

text \<open>The body of the inner loop of \<open>build_users_list\<close>, for one user of one day.\<close>

definition add_user_day :: "string \<Rightarrow> user_summary dict \<Rightarrow> string \<times> user_entry \<Rightarrow> user_summary dict" where
  "add_user_day date_str acc kv =
     (let acc1 = (if \<not> key_in (StrKey (fst kv)) acc
                  then AList.update (fst kv)
                         \<lparr>summary_username = username (snd kv), total_yes = 0, total_no = 0,
                          first_seen = date_str, last_seen = date_str\<rparr> acc
                  else acc);
          acc2 = AList.map_entry (fst kv) (\<lambda>a. a\<lparr>total_yes := total_yes a + yes_count (snd kv)\<rparr>) acc1;
          acc3 = AList.map_entry (fst kv) (\<lambda>a. a\<lparr>total_no := total_no a + no_count (snd kv)\<rparr>) acc2
      in AList.map_entry (fst kv) (\<lambda>a. a\<lparr>last_seen := date_str\<rparr>) acc3)"

definition all_users_data :: "log_store \<Rightarrow> user_summary dict" where
  "all_users_data store =
     (case store of
        Unreadable err \<Rightarrow> []
      | Stored logs \<Rightarrow>
          foldl (\<lambda>acc dl. foldl (add_user_day (fst dl)) acc (users (snd dl))) [] logs)"

text \<open>\<open>len\<close> of a set is its cardinality; the sets are walked in the interpreter's order.\<close>

definition admin_line :: "user_summary dict \<Rightarrow> int \<Rightarrow> string" where
  "admin_line data a =
     ''  - '' @
     (case map_of data (str_int a) of
        None \<Rightarrow> ''ID: '' @ str_int a
      | Some info \<Rightarrow> summary_username info) @ ''\<newline>''"

definition regular_line :: "user_summary dict \<Rightarrow> int \<Rightarrow> string" where
  "regular_line data r =
     ''  - '' @
     (case map_of data (str_int r) of
        None \<Rightarrow> ''ID: '' @ str_int r
      | Some info \<Rightarrow> summary_username info) @
     '' ('' @
     str_int (case map_of data (str_int r) of
                None \<Rightarrow> 0
              | Some info \<Rightarrow> total_yes info + total_no info) @
     '' responses)\<newline>''"

definition users_text :: "env \<Rightarrow> bot \<Rightarrow> string" where
  "users_text e s =
     (let data = all_users_data (log_file s);
          n_admins = int (card (admin_users s));
          n_regular = int (card (regular_users s))
      in ''USER MANAGEMENT\<newline>'' @ replicate 30 CHR ''='' @ ''\<newline>\<newline>'' @
         ''ADMINS ('' @ str_int n_admins @ ''):\<newline>'' @
         concat (map (admin_line data) (walk e (admin_users s))) @
         ''\<newline>REGULAR USERS ('' @ str_int n_regular @ ''):\<newline>'' @
         concat (map (regular_line data) (take 20 (walk e (regular_users s)))) @
         (if n_regular > 20 then ''  ... and '' @ str_int (n_regular - 20) @ '' more\<newline>''
          else []) @
         ''\<newline>STATISTICS:\<newline>'' @
         ''  Total users: '' @ str_int (n_admins + n_regular) @ ''\<newline>'' @
         ''  Admins: '' @ str_int n_admins @ ''\<newline>'' @
         ''  Regular users: '' @ str_int n_regular @ ''\<newline>'' @
         ''\<newline>TIP: Use buttons below to manage users'')"

definition users_keyboard :: keyboard where
  "users_keyboard =
     [[(''+ Make Admin'', ''user_make_admin''), (''- Remove Admin'', ''user_remove_admin'')],
      [(refresh_label, ''user_refresh''), (back_label, ''admin_back'')]]"

text \<open>\<open>build_users_list\<close>\<close>

definition build_users_list :: "env \<Rightarrow> bot \<Rightarrow> string \<times> keyboard" where
  "build_users_list e s = (users_text e s, users_keyboard)"

text \<open>\<open>show_users_list\<close>, called from the command and from a callback query.\<close>

definition show_users_list_update :: "env \<Rightarrow> bot \<Rightarrow> effect list" where
  "show_users_list_update e s =
     [Reply (fst (build_users_list e s)) (Some (snd (build_users_list e s)))]"

definition show_users_list_query :: "env \<Rightarrow> bot \<Rightarrow> effect list" where
  "show_users_list_query e s =
     [Edit (fst (build_users_list e s)) (Some (snd (build_users_list e s)))]"

definition admin_command :: "bot \<Rightarrow> int \<Rightarrow> bot \<times> effect list" where
  "admin_command s uid =
     (if uid \<notin> admin_users s then (s, [Reply not_available None])
      else (s, [Reply (fst build_admin_menu) (Some (snd build_admin_menu))]))"

definition users_command :: "env \<Rightarrow> bot \<Rightarrow> int \<Rightarrow> bot \<times> effect list" where
  "users_command e s uid =
     (if uid \<notin> admin_users s then (s, [Reply not_available None])
      else (s, show_users_list_update e s))"

subsection \<open>\<open>handle_yes_choice\<close> and \<open>handle_no_choice\<close>\<close>

text \<open>
  \<open>user_info\<close>: the at sign followed by the username when the user has a non-empty one,
  \<open>User ID: \<close> followed by the identifier otherwise.
\<close>

definition user_info :: "tg_user \<Rightarrow> string" where
  "user_info u =
     (case tg_username u of
        None \<Rightarrow> ''User ID: '' @ str_int (tg_id u)
      | Some n \<Rightarrow> if n = [] then ''User ID: '' @ str_int (tg_id u) else ''@'' @ n)"

definition admin_message :: "tg_user \<Rightarrow> string" where
  "admin_message u =
     ''Notification from bot:\<newline>\<newline>User '' @ user_info u @
     '' has selected 'Yes'!\<newline>\<newline>User details:\<newline>- Name: '' @
     first_name u @ '' '' @ (case last_name u of None \<Rightarrow> [] | Some l \<Rightarrow> l) @
     ''\<newline>- Username: '' @ user_info u @
     ''\<newline>- User ID: '' @ str_int (tg_id u)"

text \<open>One turn of the loop over the administrators, with its own \<open>try\<close>.\<close>

definition notify_admin :: "env \<Rightarrow> string \<Rightarrow> int \<Rightarrow> effect list" where
  "notify_admin e msg a =
     (case send_error e a of
        None \<Rightarrow> [Send a msg None, LogInfo (''Admin notification sent to '' @ str_int a)]
      | Some err \<Rightarrow>
          [LogError (''Failed to send notification to admin '' @ str_int a @ '': '' @ err)])"

definition no_admins_fallback :: "string \<Rightarrow> effect list" where
  "no_admins_fallback msg =
     [LogInfo (''ADMIN NOTIFICATION (no admins set): '' @ msg),
      Print (''\<newline>'' @ replicate 50 CHR ''=''),
      Print ''ADMIN NOTIFICATION:'',
      Print msg,
      Print ''No admin users found. Use /startadmin to become an admin.'',
      Print (replicate 50 CHR ''='' @ ''\<newline>'')]"

definition handle_yes_choice :: "env \<Rightarrow> bot \<Rightarrow> tg_user \<Rightarrow> bot \<times> effect list" where
  "handle_yes_choice e s u =
     (let (store, logged) = log_response e (log_file s) (tg_id u) (user_info u) ''yes'' None;
          s1 = s\<lparr>log_file := store\<rparr>
      in (s1, logged @ [Edit thanks_text None] @
              (if admin_users s1 \<noteq> {}
               then concat (map (notify_admin e (admin_message u))
                              (walk e (admin_users s1)))
               else no_admins_fallback (admin_message u))))"

text \<open>
  \<open>job_queue.run_once\<close> hands a new one-shot job to the queue.  The name is a label: the
  queue keeps every job it was given until the job has run or is removed, and the source
  removes none.
\<close>

definition run_once :: "job \<Rightarrow> job list \<Rightarrow> job list" where
  "run_once j q = q @ [j]"

definition handle_no_choice :: "env \<Rightarrow> bot \<Rightarrow> tg_user \<Rightarrow> bot \<times> effect list" where
  "handle_no_choice e s u =
     (let (store, logged) = log_response e (log_file s) (tg_id u) (user_info u) ''no'' None;
          s1 = s\<lparr>log_file := store\<rparr>;
          s2 = s1\<lparr>job_queue :=
                    run_once \<lparr>job_name = ''delayed_question_'' @ str_int (tg_id u),
                              job_when = 900, job_chat_id = tg_id u,
                              job_data_chat_id = tg_id u\<rparr> (job_queue s1)\<rparr>
      in (s2, logged @ [Edit ack_text None]))"


subsection \<open>\<open>handle_callback\<close>\<close>

definition action_prompt :: "string \<Rightarrow> string" where
  "action_prompt data =
     ''To manage users, send me their user ID or username.\<newline>\<newline>'' @
     ''Action: '' @ (if data = ''user_make_admin'' then ''Make Admin'' else ''Remove Admin'') @
     ''\<newline>\<newline>'' @
     ''Reply with:\<newline>'' @
     bullet @ '' User ID (e.g., 123456789)\<newline>'' @
     bullet @ '' Or @username''"

definition handle_callback :: "env \<Rightarrow> bot \<Rightarrow> tg_user \<Rightarrow> string \<Rightarrow> bot \<times> effect list" where
  "handle_callback e s u data =
     (let uid = tg_id u;
          s0 = (if user_states s uid = None
                then s\<lparr>user_states := (user_states s)(uid \<mapsto> ''active'')\<rparr> else s)
      in
      if data = ''admin_back'' then
        (s0, [Answer None, Edit (fst build_admin_menu) (Some (snd build_admin_menu))])
      else if data = ''admin_stats'' then (s0, Answer None # show_stats_inline e s0)
      else if data = ''admin_logs'' then (s0, Answer None # show_logs_inline s0)
      else if data = ''admin_users'' then (s0, Answer None # show_users_list_query e s0)
      else if data = ''admin_exit'' then
        (if uid \<in> admin_users s0 then
           let s1 = s0\<lparr>admin_users := admin_users s0 - {uid}\<rparr>;
               s2 = s1\<lparr>regular_users := insert uid (regular_users s1)\<rparr>;
               (s3, saved) = save_users s2
           in (s3, Answer None # saved @ [Edit exit_text None])
         else (s0, [Answer None]))
      else if data = ''user_refresh'' then
        (s0, [Answer None, Answer (Some ''Refreshing...'')] @ show_users_list_query e s0)
      else if data = ''user_make_admin'' \<or> data = ''user_remove_admin'' then
        (s0\<lparr>user_data := (user_data s0)(uid \<mapsto> data)\<rparr>,
         [Answer None,
          Edit (action_prompt data) (Some [[(back_label, ''admin_users_return'')]])])
      else if data = ''admin_users_return'' then
        (let s1 = s0\<lparr>user_data := (user_data s0)(uid := None)\<rparr>
         in (s1, Answer None # show_users_list_query e s1))
      else if data = ''yes'' then
        (let (s1, out) = handle_yes_choice e s0 u in (s1, Answer None # out))
      else if data = ''no'' then
        (let (s1, out) = handle_no_choice e s0 u in (s1, Answer None # out))
      else (s0, [Answer None]))"

subsection \<open>Histories\<close>

text \<open>
  What can happen to a running bot: a command, a text message, a button press, and a
  restart of the process, which builds a new object from the two files and forgets the
  pending actions and the jobs.
\<close>

datatype event =
    Start int
  | Text ucd int string
  | Admin int
  | Stats env int
  | Logs int
  | Users env int
  | Exit int
  | Callback env tg_user string
  | Restart

fun step :: "bot \<Rightarrow> event \<Rightarrow> bot" where
  "step s (Start uid) = fst (start_command s uid)"
| "step s (Text U uid text) = fst (handle_message U s uid text)"
| "step s (Admin uid) = fst (admin_command s uid)"
| "step s (Stats e uid) = fst (stats_command e s uid)"
| "step s (Logs uid) = fst (logs_command s uid)"
| "step s (Users e uid) = fst (users_command e s uid)"
| "step s (Exit uid) = fst (exit_command s uid)"
| "step s (Callback e u data) = fst (handle_callback e s u data)"
| "step s Restart = fst (init_bot (users_file s) (log_file s))"

definition run :: "bot \<Rightarrow> event list \<Rightarrow> bot" where
  "run s evs = foldl step s evs"

text \<open>A new deployment: no roster file yet, an empty log collection.\<close>

definition fresh :: bot where
  "fresh = fst (init_bot NoUsersFile (Unreadable (FileNotFoundError
             (''[Errno 2] No such file or directory: '' @ [CHR 0x27] @ ''bot_logs.json'' @
             [CHR 0x27]))))"

definition user111 :: tg_user where
  "user111 = \<lparr>tg_id = 111, tg_username = Some ''u'', first_name = ''Sara'', last_name = None\<rparr>"

subsection \<open>The roster invariant\<close>

text \<open>
  No identifier is both an administrator and a regular user, in the object and in the
  roster file.
\<close>

fun file_ok :: "users_store \<Rightarrow> bool" where
  "file_ok (UsersFile a r) = (listed a \<inter> listed r = {})"
| "file_ok NoUsersFile = True"
| "file_ok (BadUsersFile m) = True"

definition roster_ok :: "bot \<Rightarrow> bool" where
  "roster_ok s = (admin_users s \<inter> regular_users s = {} \<and> file_ok (users_file s))"

text \<open>The calls of \<open>context.bot.send_message\<close> among the effects of a handler.\<close>

fun is_send :: "effect \<Rightarrow> bool" where
  "is_send (Send chat msg kb) = True"
| "is_send other = False"



text \<open>How often a handler wrote the roster file.\<close>

definition saves :: "effect list \<Rightarrow> nat" where
  "saves out = length (filter (\<lambda>x. x = LogInfo ''Users saved successfully'') out)"


subsection \<open>Concrete histories\<close>

text \<open>
  User 111 registers and enters the admin code, user 333 registers, 111 asks to make an
  administrator and names 333, then leaves admin mode; the process restarts.
\<close>

definition history0 :: "event list" where
  "history0 = [Start 111, Text ucd0 111 ''Admin2024'', Start 333,
               Callback env0 user111 ''user_make_admin'', Text ucd0 111 ''333'', Exit 111, Restart]"

text \<open>
  User 222 enters the admin code, user 333 registers, and 222 presses the button
  \<open>- Remove Admin\<close>: 222 now holds a pending \<open>user_remove_admin\<close>.
\<close>

definition user222 :: tg_user where
  "user222 = \<lparr>tg_id = 222, tg_username = None, first_name = ''Omid'', last_name = Some ''K''\<rparr>"

definition history1 :: "event list" where
  "history1 = [Text ucd0 222 ''Admin2024'', Start 333, Callback env0 user222 ''user_remove_admin'']"

text \<open>The same state with a log file that is not JSON.\<close>

definition broken :: bot where
  "broken = (run fresh history1)
     \<lparr>log_file := Unreadable (JSONDecodeError ''Expecting value: line 1 column 1 (char 0)'')\<rparr>"

text \<open>Twelve days of logs, stored out of order.\<close>

definition day_of :: "string \<Rightarrow> int \<Rightarrow> int \<Rightarrow> string \<times> daily_log" where
  "day_of d y n =
     (d, \<lparr>date = d, total_responses = y + n, yes_responses = y, no_responses = n,
          users = [], responses = []\<rparr>)"

definition twelve_days :: "daily_log dict" where
  "twelve_days =
     [day_of ''2024-04-25'' 1 0, day_of ''2024-05-01'' 2 1, day_of ''2024-04-20'' 0 1,
      day_of ''2024-04-28'' 1 1, day_of ''2024-04-21'' 3 0, day_of ''2024-04-30'' 0 2,
      day_of ''2024-04-22'' 1 0, day_of ''2024-04-29'' 2 2, day_of ''2024-04-23'' 0 0,
      day_of ''2024-04-27'' 1 3, day_of ''2024-04-24'' 4 0, day_of ''2024-04-26'' 0 1]"

definition archive :: bot where
  "archive = (run fresh history1)\<lparr>log_file := Stored twelve_days\<rparr>"



section \<open>Properties of the Python values\<close>

lemma digit_val_digit_char: "d < 10 \<Longrightarrow> digit_val (digit_char d) = d"
  by (simp add: digit_val_def digit_char_def)

lemma is_digit_digit_char: "d < 10 \<Longrightarrow> is_ascii_digit (digit_char d)"
  by (simp add: is_ascii_digit_def digit_char_def)

lemma str_nat_digits: "list_all is_ascii_digit (str_nat n) \<and> str_nat n \<noteq> []"
proof (induction n rule: str_nat.induct)
  case (1 n)
  show ?case
  proof (cases "n < 10")
    case True
    then show ?thesis by (simp add: str_nat.simps [of n] is_digit_digit_char)
  next
    case False
    with 1 show ?thesis by (simp add: str_nat.simps [of n] is_digit_digit_char)
  qed
qed

lemma foldl_digits_str_nat: "foldl (\<lambda>a c. 10 * a + digit_val c) 0 (str_nat n) = n"
proof (induction n rule: str_nat.induct)
  case (1 n)
  show ?case
  proof (cases "n < 10")
    case True
    then show ?thesis by (simp add: str_nat.simps [of n] digit_val_digit_char)
  next
    case False
    with 1 show ?thesis by (simp add: str_nat.simps [of n] digit_val_digit_char)
  qed
qed

text \<open>An ASCII text is its own list of code points.\<close>

lemma utf8_decode_ascii: "list_all (\<lambda>b. b < 128) bs \<Longrightarrow> utf8_decode bs = bs"
  by (induction bs rule: utf8_decode.induct) simp_all

lemma code_points_digits:
  "list_all is_ascii_digit s \<Longrightarrow> code_points s = map of_char s"
proof -
  assume "list_all is_ascii_digit s"
  then have "list_all (\<lambda>b. b < 128) (map of_char s :: nat list)"
    by (induction s) (simp_all add: is_ascii_digit_def)
  then show ?thesis by (simp add: code_points_def utf8_decode_ascii)
qed

lemma decimal_of_ascii_digit:
  "is_ascii_digit c \<Longrightarrow> decimal_of U (of_char c) = Some (digit_val c)"
  by (simp add: decimal_of_def is_ascii_digit_def digit_val_def)

lemma those_decimal_digits:
  "list_all is_ascii_digit s \<Longrightarrow>
   those (map (decimal_of U \<circ> of_char) s) = Some (map digit_val s)"
  by (induction s) (simp_all add: decimal_of_ascii_digit)

lemma digits_value_map:
  "digits_value (map digit_val s) = foldl (\<lambda>a c. 10 * a + digit_val c) 0 s"
  by (simp add: digits_value_def foldl_map)

text \<open>An ASCII numeral is a numeral whatever the rest of the Unicode database says.\<close>

lemma py_int_ascii:
  "s \<noteq> [] \<Longrightarrow> list_all is_ascii_digit s \<Longrightarrow>
   py_int U s = Inr (int (foldl (\<lambda>a c. 10 * a + digit_val c) 0 s))"
  by (simp add: py_int_def code_points_digits those_decimal_digits digits_value_map)

lemma isdigit_ascii: "s \<noteq> [] \<Longrightarrow> list_all is_ascii_digit s \<Longrightarrow> isdigit U s"
proof -
  assume n: "s \<noteq> []" and d: "list_all is_ascii_digit s"
  have "list_all (is_digit_point U) (map of_char s)"
    using d by (induction s) (simp_all add: is_digit_point_def decimal_of_ascii_digit)
  then show ?thesis using n d by (simp add: isdigit_def code_points_digits)
qed

text \<open>Reading back what \<open>str\<close> wrote: \<open>int(str(n)) == n\<close>, and \<open>str(n).isdigit()\<close>.\<close>

lemma py_int_str_nat: "py_int U (str_nat n) = Inr (int n)"
  using str_nat_digits [of n] by (simp add: py_int_ascii foldl_digits_str_nat)

lemma isdigit_str_nat: "isdigit U (str_nat n)"
  using str_nat_digits [of n] by (simp add: isdigit_ascii)

lemma str_nat_inj: "str_nat m = str_nat n \<Longrightarrow> m = n"
  by (metis foldl_digits_str_nat)

lemma str_nat_no_minus: "str_nat n \<noteq> CHR ''-'' # s"
proof
  assume "str_nat n = CHR ''-'' # s"
  then have "list_all is_ascii_digit (CHR ''-'' # s)"
    using str_nat_digits [of n] by simp
  then show False by (simp add: is_ascii_digit_def)
qed

text \<open>Two users never share a key of the per-user dict.\<close>

lemma str_int_inj: "str_int i = str_int j \<Longrightarrow> i = j"
proof -
  assume h: "str_int i = str_int j"
  show ?thesis
  proof (cases "i < 0"; cases "j < 0")
    assume "i < 0" "j < 0"
    with h have "nat (- i) = nat (- j)" by (auto simp: str_int_def dest: str_nat_inj)
    then show ?thesis using \<open>i < 0\<close> \<open>j < 0\<close> by simp
  next
    assume "i < 0" "\<not> j < 0"
    with h have "str_nat (nat j) = CHR ''-'' # str_nat (nat (- i))" by (simp add: str_int_def)
    then show ?thesis using str_nat_no_minus by blast
  next
    assume "\<not> i < 0" "j < 0"
    with h have "str_nat (nat i) = CHR ''-'' # str_nat (nat (- j))" by (simp add: str_int_def)
    then show ?thesis using str_nat_no_minus by blast
  next
    assume "\<not> i < 0" "\<not> j < 0"
    with h have "nat i = nat j" by (auto simp: str_int_def dest: str_nat_inj)
    then show ?thesis using \<open>\<not> i < 0\<close> \<open>\<not> j < 0\<close> by simp
  qed
qed

lemma key_in_IntKey: "key_in (IntKey i) d = False"
  by (simp add: key_in_def)

lemma key_in_StrKey: "key_in (StrKey s) d = (map_of d s \<noteq> None)"
  by (simp add: key_in_def map_of_eq_None_iff)

section \<open>Recording a response\<close>

lemma day_or_new_eq:
  "day_or_new d logs = (case map_of logs d of None \<Rightarrow> new_day d | Some day \<Rightarrow> day)"
  by (simp add: day_or_new_def key_in_StrKey split: option.splits)

text \<open>
  The lookups \<open>users[str(user_id)]\<close> of the per-user block never miss: the key is there
  after the block, and its entry is a fresh one counted once, whatever was stored under
  it before.
\<close>

lemma count_user_self:
  "map_of (count_user uid name resp us) (str_int uid) =
     Some \<lparr>username = name, user_total_responses = 1,
           yes_count = (if resp = ''yes'' then 1 else 0),
           no_count = (if resp = ''yes'' then 0 else 1)\<rparr>"
  by (simp add: count_user_def Let_def map_of_map_entry update_conv' new_user_def key_in_IntKey)

lemma count_user_other:
  "k \<noteq> str_int uid \<Longrightarrow> map_of (count_user uid name resp us) k = map_of us k"
  by (simp add: count_user_def Let_def map_of_map_entry update_conv' key_in_IntKey)

lemma count_day_fields:
  "date (count_day resp day) = date day"
  "users (count_day resp day) = users day"
  "responses (count_day resp day) = responses day"
  "total_responses (count_day resp day) = total_responses day + 1"
  "yes_responses (count_day resp day) = yes_responses day + (if resp = ''yes'' then 1 else 0)"
  "no_responses (count_day resp day) = no_responses day + (if resp = ''yes'' then 0 else 1)"
  by (simp_all add: count_day_def Let_def)

lemma log_response_other_date:
  "d \<noteq> today e \<Longrightarrow>
   map_of (logs_or_empty (fst (log_response e store uid name resp ts))) d =
   map_of (logs_or_empty store) d"
  by (simp add: log_response_def Let_def update_conv')

lemma log_response_today:
  "map_of (logs_or_empty (fst (log_response e store uid name resp ts))) (today e) =
   Some ((count_day resp (day_view e store))
     \<lparr>users := count_user uid name resp (users (day_view e store)),
      responses := responses (day_view e store) @
        [\<lparr>timestamp = (case ts of None \<Rightarrow> now e | Some t \<Rightarrow> t), user_id = uid,
          entry_username = name, response = resp\<rparr>]\<rparr>)"
  by (simp add: log_response_def Let_def update_conv' count_day_fields day_view_def)

lemma day_view_log_response:
  "day_view e (fst (log_response e store uid name resp ts)) =
   (count_day resp (day_view e store))
     \<lparr>users := count_user uid name resp (users (day_view e store)),
      responses := responses (day_view e store) @
        [\<lparr>timestamp = (case ts of None \<Rightarrow> now e | Some t \<Rightarrow> t), user_id = uid,
          entry_username = name, response = resp\<rparr>]\<rparr>"
  using log_response_today [of e store uid name resp ts]
  by (simp add: day_view_def [of e "fst (log_response e store uid name resp ts)"] day_or_new_eq)

text \<open>The aggregate counters of a day stay consistent under \<open>log_response\<close>.\<close>

lemma log_response_aggregate:
  "total_responses (day_view e store) = yes_responses (day_view e store) + no_responses (day_view e store)
   \<Longrightarrow> total_responses (day_view e (fst (log_response e store uid name resp ts))) =
       yes_responses (day_view e (fst (log_response e store uid name resp ts))) +
       no_responses (day_view e (fst (log_response e store uid name resp ts)))"
  by (simp add: day_view_log_response count_day_fields)

lemma str_int_111: "str_int 111 = ''111''"
  by code_simp

lemma str_int_222: "str_int 222 = ''222''"
  by code_simp

text \<open>
  C2.  The claim: after any sequence of responses of a day, the day's total is the sum of
  its yes and no counters and also the sum of the per-user totals, and no counter ever
  goes down.  On the code: user 111 answers no and later yes on 1 May 2024, starting
  from the empty collection.  The aggregate counters read 2 = 1 + 1, but the entry of
  the user was started afresh by the second call: its total is 1, so is the sum of the
  per-user totals, and its no counter went from 1 back to 0.
\<close>

theorem log_response_no_then_yes:
  "day_view env0
     (fst (log_response env0 (fst (log_response env0 (Stored []) 111 ''@u'' ''no'' None))
        111 ''@u'' ''yes'' None)) =
   \<lparr>date = ''2024-05-01'', total_responses = 2, yes_responses = 1, no_responses = 1,
    users = [(''111'', \<lparr>username = ''@u'', user_total_responses = 1, yes_count = 1,
                          no_count = 0\<rparr>)],
    responses = [\<lparr>timestamp = ''2024-05-01T12:00:00'', user_id = 111,
                   entry_username = ''@u'', response = ''no''\<rparr>,
                 \<lparr>timestamp = ''2024-05-01T12:00:00'', user_id = 111,
                   entry_username = ''@u'', response = ''yes''\<rparr>]\<rparr>"
  by code_simp

text \<open>
  C10.  Recording a response of user \<open>uid\<close> on the day \<open>today e\<close> leaves the record of
  every other date as it was; in today's record the date field and the entry under
  every key other than \<open>str(uid)\<close>, so the entry of every other user, are as before
  (absent when today's record is new), and the list of responses is the old list with
  the new response appended.
\<close>

theorem log_response_frame:
  "(\<forall>d. d \<noteq> today e \<longrightarrow>
      map_of (logs_or_empty (fst (log_response e store uid name resp ts))) d =
      map_of (logs_or_empty store) d) \<and>
   map_of (logs_or_empty (fst (log_response e store uid name resp ts))) (today e) =
     Some (day_view e (fst (log_response e store uid name resp ts))) \<and>
   date (day_view e (fst (log_response e store uid name resp ts))) = date (day_view e store) \<and>
   (\<forall>k. k \<noteq> str_int uid \<longrightarrow>
      map_of (users (day_view e (fst (log_response e store uid name resp ts)))) k =
      map_of (users (day_view e store)) k) \<and>
   (\<forall>u. u \<noteq> uid \<longrightarrow>
      map_of (users (day_view e (fst (log_response e store uid name resp ts)))) (str_int u) =
      map_of (users (day_view e store)) (str_int u)) \<and>
   responses (day_view e (fst (log_response e store uid name resp ts))) =
     responses (day_view e store) @
       [\<lparr>timestamp = (case ts of None \<Rightarrow> now e | Some t \<Rightarrow> t), user_id = uid,
         entry_username = name, response = resp\<rparr>]"
proof -
  have other: "\<forall>k. k \<noteq> str_int uid \<longrightarrow>
      map_of (users (day_view e (fst (log_response e store uid name resp ts)))) k =
      map_of (users (day_view e store)) k"
    by (simp add: day_view_log_response count_user_other)
  have "\<forall>u. u \<noteq> uid \<longrightarrow> str_int u \<noteq> str_int uid"
    using str_int_inj by blast
  with other have users: "\<forall>u. u \<noteq> uid \<longrightarrow>
      map_of (users (day_view e (fst (log_response e store uid name resp ts)))) (str_int u) =
      map_of (users (day_view e store)) (str_int u)"
    by blast
  have today: "map_of (logs_or_empty (fst (log_response e store uid name resp ts))) (today e) =
     Some (day_view e (fst (log_response e store uid name resp ts)))"
    by (simp add: log_response_today day_view_log_response)
  show ?thesis
    using other users today
    by (simp add: log_response_other_date day_view_log_response count_day_fields)
qed

theorem log_response_frame_witness:
  "''2024-04-30'' \<noteq> today env0 \<and>
   map_of (logs_or_empty (fst (log_response env0 store0 111 ''@u'' ''yes'' None))) ''2024-04-30'' =
     map_of (logs_or_empty store0) ''2024-04-30'' \<and>
   (222::int) \<noteq> 111 \<and> ''222'' \<noteq> str_int 111 \<and>
   map_of (users (day_view env0 (fst (log_response env0 store0 111 ''@u'' ''yes'' None)))) ''222'' =
     Some \<lparr>username = ''@v'', user_total_responses = 1, yes_count = 0, no_count = 1\<rparr> \<and>
   map_of (users (day_view env0 (fst (log_response env0 store0 111 ''@u'' ''yes'' None))))
       (str_int 222) =
     Some \<lparr>username = ''@v'', user_total_responses = 1, yes_count = 0, no_count = 1\<rparr>"
proof -
  have v: "users (day_view env0 store0) =
      [(''222'', \<lparr>username = ''@v'', user_total_responses = 1, yes_count = 0, no_count = 1\<rparr>)]"
    by (simp add: day_view_def day_or_new_eq env0_def store0_def)
  have t: "today env0 = ''2024-05-01''"
    by (simp add: env0_def)
  show ?thesis
    using log_response_frame [of env0 store0 111 "''@u''" "''yes''" None] v t
    by (simp add: str_int_111 str_int_222)
qed

section \<open>The roster stays disjoint\<close>

text \<open>
  The roster action by cases, and \<open>handle_message\<close> by cases: no pending action for an
  administrator; a pending action and a text that is not a numeral; a text that passes
  \<open>isdigit\<close> and makes \<open>int\<close> raise; a numeral, on which the action is performed.
\<close>

lemma pa_make:
  "perform_action s ''user_make_admin'' t =
     (s\<lparr>regular_users := regular_users s - {t},
         admin_users := insert t (admin_users s),
         users_file := UsersFile (Ids (insert t (admin_users s))) (Ids (regular_users s - {t}))\<rparr>,
      [LogInfo ''Users saved successfully'',
       Reply (check_mark @ '' User '' @ str_int t @ '' is now an admin.'') None])"
  by (simp add: perform_action_def Let_def save_users_def)

lemma pa_remove_in:
  "t \<in> admin_users s \<Longrightarrow>
   perform_action s ''user_remove_admin'' t =
     (s\<lparr>admin_users := admin_users s - {t},
         regular_users := insert t (regular_users s),
         users_file := UsersFile (Ids (admin_users s - {t})) (Ids (insert t (regular_users s)))\<rparr>,
      [LogInfo ''Users saved successfully'',
       Reply (check_mark @ '' User '' @ str_int t @ '' removed from admins.'') None])"
  by (simp add: perform_action_def Let_def save_users_def)

lemma pa_remove_out:
  "t \<notin> admin_users s \<Longrightarrow>
   perform_action s ''user_remove_admin'' t =
     (s, [Reply (cross_mark @ '' User '' @ str_int t @ '' is not an admin.'') None])"
  by (simp add: perform_action_def)

lemma pa_unknown:
  "action \<noteq> ''user_make_admin'' \<Longrightarrow> action \<noteq> ''user_remove_admin'' \<Longrightarrow>
   perform_action s action t = (s, [])"
  by (simp add: perform_action_def)

lemma pa_cases:
  obtains (make) "action = ''user_make_admin''"
  | (remove_in) "action = ''user_remove_admin''" "t \<in> admin_users s"
  | (remove_out) "action = ''user_remove_admin''" "t \<notin> admin_users s"
  | (unknown) "action \<noteq> ''user_make_admin''" "action \<noteq> ''user_remove_admin''"
  by blast

lemma perform_action_ok: "roster_ok s \<Longrightarrow> roster_ok (fst (perform_action s action t))"
proof -
  assume ok: "roster_ok s"
  then have d: "admin_users s \<inter> regular_users s = {}" by (simp add: roster_ok_def)
  show ?thesis
  proof (cases rule: pa_cases [where action = action and t = t and s = s])
    case make
    have "insert t (admin_users s) \<inter> (regular_users s - {t}) = {}" using d by blast
    then show ?thesis using make by (simp add: pa_make roster_ok_def)
  next
    case remove_in
    have "(admin_users s - {t}) \<inter> insert t (regular_users s) = {}" using d by blast
    then show ?thesis using remove_in by (simp add: pa_remove_in roster_ok_def)
  next
    case remove_out
    then show ?thesis using ok by (simp add: pa_remove_out)
  next
    case unknown
    then show ?thesis using ok by (simp add: pa_unknown)
  qed
qed

lemma perform_action_pending: "user_data (fst (perform_action s action t)) = user_data s"
proof (cases rule: pa_cases [where action = action and t = t and s = s])
  case make
  then show ?thesis by (simp add: pa_make)
next
  case remove_in
  then show ?thesis by (simp add: pa_remove_in)
next
  case remove_out
  then show ?thesis by (simp add: pa_remove_out)
next
  case unknown
  then show ?thesis by (simp add: pa_unknown)
qed

lemma saves_simps:
  "saves [] = 0"
  "saves (LogInfo ''Users saved successfully'' # out) = Suc (saves out)"
  "saves (Reply t k # out) = saves out"
  "saves (Uncaught err # out) = saves out"
  by (simp_all add: saves_def)

lemma perform_action_saves: "saves (snd (perform_action s action t)) \<le> 1"
proof (cases rule: pa_cases [where action = action and t = t and s = s])
  case make
  then show ?thesis by (simp add: pa_make saves_simps)
next
  case remove_in
  then show ?thesis by (simp add: pa_remove_in saves_simps)
next
  case remove_out
  then show ?thesis by (simp add: pa_remove_out saves_simps)
next
  case unknown
  then show ?thesis by (simp add: pa_unknown saves_simps)
qed

lemma hm_none:
  "(if uid \<in> admin_users s then user_data s uid else None) = None \<Longrightarrow>
   handle_message U s uid msg =
     (if msg = admin_code then
        (s\<lparr>admin_users := insert uid (admin_users s),
           regular_users := regular_users s - {uid},
           users_file := UsersFile (Ids (insert uid (admin_users s))) (Ids (regular_users s - {uid}))\<rparr>,
         [LogInfo ''Users saved successfully'', Reply admin_granted_text None])
      else (s, []))"
  by (simp add: handle_message_def save_users_def Let_def)

lemma hm_some_other:
  "uid \<in> admin_users s \<Longrightarrow> user_data s uid = Some action \<Longrightarrow> \<not> isdigit U msg \<Longrightarrow>
   handle_message U s uid msg =
     (s\<lparr>user_data := (user_data s)(uid := None)\<rparr>,
      [Reply (if startswith msg ''@'' then username_lookup_text else invalid_format_text) None])"
  by (simp add: handle_message_def Let_def)

lemma hm_some_error:
  "uid \<in> admin_users s \<Longrightarrow> user_data s uid = Some action \<Longrightarrow> isdigit U msg \<Longrightarrow>
   py_int U msg = Inl err \<Longrightarrow>
   handle_message U s uid msg = (s\<lparr>user_data := (user_data s)(uid := None)\<rparr>, [Uncaught err])"
  by (simp add: handle_message_def Let_def)

lemma hm_some_target:
  "uid \<in> admin_users s \<Longrightarrow> user_data s uid = Some action \<Longrightarrow> isdigit U msg \<Longrightarrow>
   py_int U msg = Inr t \<Longrightarrow>
   handle_message U s uid msg =
     perform_action (s\<lparr>user_data := (user_data s)(uid := None)\<rparr>) action t"
  by (simp add: handle_message_def Let_def)

lemma hm_cases:
  obtains
    (idle) "(if uid \<in> admin_users s then user_data s uid else None) = None"
  | (other) action where "uid \<in> admin_users s" "user_data s uid = Some action" "\<not> isdigit U msg"
  | (error) action err where "uid \<in> admin_users s" "user_data s uid = Some action"
      "isdigit U msg" "py_int U msg = Inl err"
  | (target) action t where "uid \<in> admin_users s" "user_data s uid = Some action"
      "isdigit U msg" "py_int U msg = Inr t"
proof (cases "uid \<in> admin_users s")
  case False
  then show ?thesis using idle by simp
next
  case True
  show ?thesis
  proof (cases "user_data s uid")
    case None
    then show ?thesis using idle by simp
  next
    case (Some action)
    show ?thesis
    proof (cases "isdigit U msg")
      case False
      then show ?thesis using True Some other by blast
    next
      case d: True
      show ?thesis
      proof (cases "py_int U msg")
        case (Inl err)
        then show ?thesis using True Some d error by blast
      next
        case (Inr t)
        then show ?thesis using True Some d target by blast
      qed
    qed
  qed
qed

lemma handle_message_ok: "roster_ok s \<Longrightarrow> roster_ok (fst (handle_message U s uid msg))"
proof -
  assume ok: "roster_ok s"
  then have d: "admin_users s \<inter> regular_users s = {}" and f: "file_ok (users_file s)"
    by (simp_all add: roster_ok_def)
  have ok1: "roster_ok (s\<lparr>user_data := (user_data s)(uid := None)\<rparr>)"
    using ok by (simp add: roster_ok_def)
  show ?thesis
  proof (cases rule: hm_cases [where uid = uid and s = s and msg = msg and U = U])
    case idle
    have "insert uid (admin_users s) \<inter> (regular_users s - {uid}) = {}" using d by blast
    then show ?thesis using ok by (simp add: hm_none [OF idle] roster_ok_def)
  next
    case (other action)
    then show ?thesis using ok by (simp add: hm_some_other roster_ok_def)
  next
    case (error action err)
    then show ?thesis using ok by (simp add: hm_some_error roster_ok_def)
  next
    case (target action t)
    then show ?thesis using perform_action_ok [OF ok1] by (simp add: hm_some_target)
  qed
qed

lemma handle_yes_choice_roster:
  "admin_users (fst (handle_yes_choice e s u)) = admin_users s"
  "regular_users (fst (handle_yes_choice e s u)) = regular_users s"
  "users_file (fst (handle_yes_choice e s u)) = users_file s"
  by (simp_all add: handle_yes_choice_def Let_def split: prod.splits)

lemma handle_no_choice_roster:
  "admin_users (fst (handle_no_choice e s u)) = admin_users s"
  "regular_users (fst (handle_no_choice e s u)) = regular_users s"
  "users_file (fst (handle_no_choice e s u)) = users_file s"
  by (simp_all add: handle_no_choice_def Let_def split: prod.splits)

lemma hc_exit:
  "tg_id u \<in> admin_users s \<Longrightarrow>
   fst (handle_callback e s u ''admin_exit'') =
     (if user_states s (tg_id u) = None
      then s\<lparr>user_states := (user_states s)(tg_id u \<mapsto> ''active'')\<rparr> else s)
     \<lparr>admin_users := admin_users s - {tg_id u},
      regular_users := insert (tg_id u) (regular_users s),
      users_file := UsersFile (Ids (admin_users s - {tg_id u}))
                       (Ids (insert (tg_id u) (regular_users s)))\<rparr>"
  by (simp add: handle_callback_def Let_def save_users_def)


lemma save_users_ok:
  "admin_users s \<inter> regular_users s = {} \<Longrightarrow> roster_ok (fst (save_users s))"
  by (simp add: save_users_def roster_ok_def)

lemma init_bot_ok: "file_ok uf \<Longrightarrow> roster_ok (fst (init_bot uf lf))"
proof (cases uf)
  case NoUsersFile
  then show ?thesis by (simp add: init_bot_def load_users_def roster_ok_def)
next
  case (BadUsersFile m)
  then show ?thesis by (simp add: init_bot_def load_users_def roster_ok_def)
next
  case (UsersFile a r)
  assume "file_ok uf"
  then show ?thesis using UsersFile
    by (cases a; cases r) (simp_all add: init_bot_def load_users_def roster_ok_def Let_def)
qed

lemma start_command_ok: "roster_ok s \<Longrightarrow> roster_ok (fst (start_command s uid))"
proof -
  assume ok: "roster_ok s"
  show ?thesis
  proof (cases "uid \<in> admin_users s")
    case True
    then show ?thesis using ok by (simp add: start_command_def)
  next
    case False
    with ok have "admin_users s \<inter> insert uid (regular_users s) = {}"
      by (auto simp: roster_ok_def)
    then show ?thesis using False
      by (simp add: start_command_def Let_def save_users_def roster_ok_def)
  qed
qed

lemma exit_command_ok: "roster_ok s \<Longrightarrow> roster_ok (fst (exit_command s uid))"
proof -
  assume ok: "roster_ok s"
  show ?thesis
  proof (cases "uid \<in> admin_users s")
    case False
    then show ?thesis using ok by (simp add: exit_command_def)
  next
    case True
    from ok have "(admin_users s - {uid}) \<inter> insert uid (regular_users s) = {}"
      by (auto simp: roster_ok_def)
    then show ?thesis using True
      by (simp add: exit_command_def Let_def save_users_def roster_ok_def)
  qed
qed

lemma hc_other:
  "data \<noteq> ''admin_exit'' \<or> tg_id u \<notin> admin_users s \<Longrightarrow>
   admin_users (fst (handle_callback e s u data)) = admin_users s \<and>
   regular_users (fst (handle_callback e s u data)) = regular_users s \<and>
   users_file (fst (handle_callback e s u data)) = users_file s"
  by (simp add: handle_callback_def Let_def handle_yes_choice_roster handle_no_choice_roster
        split_beta)

lemma handle_callback_ok: "roster_ok s \<Longrightarrow> roster_ok (fst (handle_callback e s u data))"
proof -
  assume ok: "roster_ok s"
  show ?thesis
  proof (cases "data = ''admin_exit'' \<and> tg_id u \<in> admin_users s")
    case True
    from ok have "(admin_users s - {tg_id u}) \<inter> insert (tg_id u) (regular_users s) = {}"
      by (auto simp: roster_ok_def)
    then show ?thesis using True by (simp add: hc_exit roster_ok_def)
  next
    case False
    then have "data \<noteq> ''admin_exit'' \<or> tg_id u \<notin> admin_users s" by blast
    from hc_other [OF this, of e] show ?thesis using ok by (simp add: roster_ok_def)
  qed
qed

lemma step_ok: "roster_ok s \<Longrightarrow> roster_ok (step s ev)"
proof -
  assume ok: "roster_ok s"
  show ?thesis
  proof (cases ev)
    case (Start uid)
    then show ?thesis using ok by (simp add: start_command_ok)
  next
    case (Text U uid msg)
    then show ?thesis using ok by (simp add: handle_message_ok)
  next
    case (Admin uid)
    then show ?thesis using ok by (simp add: admin_command_def)
  next
    case (Stats e uid)
    then show ?thesis using ok
      by (simp add: stats_command_def split: log_store.splits option.splits)
  next
    case (Logs uid)
    then show ?thesis using ok by (simp add: logs_command_def split: log_store.splits)
  next
    case (Users e uid)
    then show ?thesis using ok by (simp add: users_command_def)
  next
    case (Exit uid)
    then show ?thesis using ok by (simp add: exit_command_ok)
  next
    case (Callback e u data)
    then show ?thesis using ok by (simp add: handle_callback_ok)
  next
    case Restart
    from ok have "file_ok (users_file s)" by (simp add: roster_ok_def)
    then show ?thesis using Restart by (simp add: init_bot_ok)
  qed
qed

lemma run_ok: "roster_ok s \<Longrightarrow> roster_ok (run s evs)"
  unfolding run_def by (induction evs arbitrary: s) (simp_all add: step_ok)

lemma fresh_ok: "roster_ok fresh"
  by (simp add: fresh_def init_bot_ok)

lemma py_int_333: "py_int U ''333'' = Inr 333"
  by (simp add: py_int_ascii is_ascii_digit_def digit_val_def)

lemma isdigit_333: "isdigit U ''333''"
  by (simp add: isdigit_ascii is_ascii_digit_def)

lemma code_points_persian_333: "code_points persian_333 = [0x6F3, 0x6F3, 0x6F3]"
  by (simp add: code_points_def persian_333_def)

lemma isdigit_persian_333: "isdigit ucd0 persian_333"
  by (simp add: isdigit_def code_points_persian_333 is_digit_point_def decimal_of_def ucd0_def)

lemma py_int_persian_333: "py_int ucd0 persian_333 = Inr 333"
  by (simp add: py_int_def code_points_persian_333 decimal_of_def ucd0_def digits_value_def)

lemma code_points_superscript_two: "code_points superscript_two = [0xB2]"
  by (simp add: code_points_def superscript_two_def)

lemma isdigit_superscript_two: "isdigit ucd0 superscript_two"
  by (simp add: isdigit_def code_points_superscript_two is_digit_point_def decimal_of_def ucd0_def)

lemma py_int_superscript_two:
  "py_int ucd0 superscript_two = Inl (invalid_literal superscript_two)"
  by (simp add: py_int_def code_points_superscript_two decimal_of_def ucd0_def)

lemma garbage_not_digit: "\<not> isdigit U ''make 333 admin''"
  by (simp add: isdigit_def code_points_def is_digit_point_def decimal_of_def)

lemma str_int_333: "str_int 333 = ''333''"
  by code_simp

lemma history0_admins: "admin_users (run fresh history0) = {333}"
  by code_simp

lemma history0_regular: "regular_users (run fresh history0) = {111}"
  by code_simp

text \<open>
  C1.  From a state whose administrators and regular users are disjoint, in the object
  and in the roster file, every history of commands, text messages, button presses and
  restarts ends in a state whose two sets are disjoint.  The histories contain every
  operation on the roster: registration by \<open>/start\<close>, the admin code, a pending
  \<open>user_make_admin\<close> or \<open>user_remove_admin\<close> completed by a text message, \<open>/exit\<close> and the
  \<open>admin_exit\<close> button.
\<close>

theorem roster_disjoint:
  "roster_ok s \<Longrightarrow> admin_users (run s evs) \<inter> regular_users (run s evs) = {}"
  using run_ok [of s evs] by (simp add: roster_ok_def)

theorem roster_disjoint_witness:
  "roster_ok fresh \<and>
   admin_users (run fresh history0) = {333} \<and> regular_users (run fresh history0) = {111} \<and>
   admin_users (run fresh history0) \<inter> regular_users (run fresh history0) = {}"
proof -
  have ok: "roster_ok fresh"
    by (simp add: fresh_def init_bot_def load_users_def roster_ok_def)
  show ?thesis
    using roster_disjoint [OF ok, of history0] ok
    by (simp add: history0_admins history0_regular)
qed

text \<open>A new deployment is such a state, so every state it reaches has disjoint sets.\<close>

lemma roster_disjoint_fresh:
  "admin_users (run fresh evs) \<inter> regular_users (run fresh evs) = {}"
  using run_ok [OF fresh_ok, of evs] by (simp add: roster_ok_def)


section \<open>Pending actions\<close>

lemma history1_admin: "222 \<in> admin_users (run fresh history1)"
  by code_simp

lemma history1_admins: "admin_users (run fresh history1) = {222}"
  by code_simp

lemma history1_regular: "regular_users (run fresh history1) = {333}"
  by code_simp

lemma history1_pending: "user_data (run fresh history1) 222 = Some ''user_remove_admin''"
  by code_simp

lemma history1_file: "users_file (run fresh history1) = UsersFile (Ids {222}) (Ids {333})"
  by code_simp

text \<open>
  Whatever the text, the handler leaves an administrator who held a pending action
  without one, and writes the roster at most once.
\<close>

lemma pending_cleared:
  "uid \<in> admin_users s \<Longrightarrow> user_data s uid = Some action \<Longrightarrow>
   user_data (fst (handle_message U s uid msg)) uid = None \<and>
   saves (snd (handle_message U s uid msg)) \<le> 1"
proof -
  assume a: "uid \<in> admin_users s" and p: "user_data s uid = Some action"
  show ?thesis
  proof (cases rule: hm_cases [where uid = uid and s = s and msg = msg and U = U])
    case idle
    then show ?thesis using a p by simp
  next
    case (other action)
    then show ?thesis by (simp add: hm_some_other saves_simps)
  next
    case (error action err)
    then show ?thesis by (simp add: hm_some_error saves_simps)
  next
    case (target action t)
    then show ?thesis
      using perform_action_saves [of "s\<lparr>user_data := (user_data s)(uid := None)\<rparr>" action t]
      by (simp add: hm_some_target perform_action_pending)
  qed
qed

text \<open>
  C3.  An administrator holds a pending action and sends a text message, of any content.
  When the handler returns or raises, that administrator holds no pending action.  The
  slot is cleared before the text is validated: when the text passes \<open>isdigit\<close> and
  \<open>int\<close> then raises \<open>ValueError\<close>, the handler ends with that exception, and the state it
  leaves is the old one with the slot cleared and nothing else changed.  The handler
  writes the roster at most once, and a further text message of the same user, unless it
  is the admin code, changes nothing and answers nothing: the action of one prompt is
  applied at most once.
\<close>

theorem pending_cleared_once:
  "uid \<in> admin_users s \<Longrightarrow> user_data s uid = Some action \<Longrightarrow>
   user_data (fst (handle_message U s uid msg)) uid = None \<and>
   (\<forall>err. isdigit U msg \<and> py_int U msg = Inl err \<longrightarrow>
      handle_message U s uid msg =
        (s\<lparr>user_data := (user_data s)(uid := None)\<rparr>, [Uncaught err])) \<and>
   (\<not> isdigit U msg \<longrightarrow>
      handle_message U s uid msg =
        (s\<lparr>user_data := (user_data s)(uid := None)\<rparr>,
         [Reply (if startswith msg ''@''
                 then ''Username lookup not implemented yet. Please use numeric user ID.\<newline>'' @
                      ''You can find user IDs in the /users list.''
                 else ''Invalid user ID format. Please send a numeric user ID.'') None])) \<and>
   saves (snd (handle_message U s uid msg)) \<le> 1 \<and>
   (msg2 \<noteq> admin_code \<longrightarrow>
      handle_message U2 (fst (handle_message U s uid msg)) uid msg2 =
        (fst (handle_message U s uid msg), []))"
proof -
  assume a: "uid \<in> admin_users s" and p: "user_data s uid = Some action"
  from pending_cleared [OF a p, of U msg]
  have cleared: "user_data (fst (handle_message U s uid msg)) uid = None"
    and once: "saves (snd (handle_message U s uid msg)) \<le> 1"
    by simp_all
  have raised: "\<forall>err. isdigit U msg \<and> py_int U msg = Inl err \<longrightarrow>
      handle_message U s uid msg =
        (s\<lparr>user_data := (user_data s)(uid := None)\<rparr>, [Uncaught err])"
    using a p by (simp add: hm_some_error)
  have garbage: "\<not> isdigit U msg \<longrightarrow>
      handle_message U s uid msg =
        (s\<lparr>user_data := (user_data s)(uid := None)\<rparr>,
         [Reply (if startswith msg ''@''
                 then ''Username lookup not implemented yet. Please use numeric user ID.\<newline>'' @
                      ''You can find user IDs in the /users list.''
                 else ''Invalid user ID format. Please send a numeric user ID.'') None])"
    using a p by (simp add: hm_some_other username_lookup_text_def invalid_format_text_def)
  from cleared have
    "(if uid \<in> admin_users (fst (handle_message U s uid msg))
      then user_data (fst (handle_message U s uid msg)) uid else None) = None"
    by simp
  from hm_none [OF this, of U2 msg2] have again:
    "msg2 \<noteq> admin_code \<longrightarrow>
      handle_message U2 (fst (handle_message U s uid msg)) uid msg2 =
        (fst (handle_message U s uid msg), [])"
    by simp
  from cleared raised garbage once again show ?thesis by blast
qed

text \<open>
  At a superscript two, which passes \<open>isdigit\<close> and is no numeral: the handler raises, the
  slot is cleared, the roster is as before, and the numeral 333 sent next is ignored.
\<close>

theorem pending_cleared_once_witness:
  "222 \<in> admin_users (run fresh history1) \<and>
   user_data (run fresh history1) 222 = Some ''user_remove_admin'' \<and>
   isdigit ucd0 superscript_two \<and>
   py_int ucd0 superscript_two = Inl (invalid_literal superscript_two) \<and>
   handle_message ucd0 (run fresh history1) 222 superscript_two =
     ((run fresh history1)\<lparr>user_data := (user_data (run fresh history1))(222 := None)\<rparr>,
      [Uncaught (invalid_literal superscript_two)]) \<and>
   user_data (fst (handle_message ucd0 (run fresh history1) 222 superscript_two)) 222 = None \<and>
   ''333'' \<noteq> admin_code \<and>
   handle_message ucd0 (fst (handle_message ucd0 (run fresh history1) 222 superscript_two))
       222 ''333'' =
     (fst (handle_message ucd0 (run fresh history1) 222 superscript_two), []) \<and>
   \<not> isdigit ucd0 ''make 333 admin'' \<and>
   handle_message ucd0 (run fresh history1) 222 ''make 333 admin'' =
     ((run fresh history1)\<lparr>user_data := (user_data (run fresh history1))(222 := None)\<rparr>,
      [Reply ''Invalid user ID format. Please send a numeric user ID.'' None])"
proof -
  have code: "''333'' \<noteq> admin_code" by (simp add: admin_code_def)
  have plain: "\<not> startswith ''make 333 admin'' ''@''" by (simp add: startswith_def)
  from pending_cleared_once [OF history1_admin history1_pending,
      of ucd0 superscript_two "''333''" ucd0]
  have one: "user_data (fst (handle_message ucd0 (run fresh history1) 222 superscript_two)) 222 = None"
    and two: "handle_message ucd0 (run fresh history1) 222 superscript_two =
     ((run fresh history1)\<lparr>user_data := (user_data (run fresh history1))(222 := None)\<rparr>,
      [Uncaught (invalid_literal superscript_two)])"
    and three: "handle_message ucd0
       (fst (handle_message ucd0 (run fresh history1) 222 superscript_two)) 222 ''333'' =
     (fst (handle_message ucd0 (run fresh history1) 222 superscript_two), [])"
    using isdigit_superscript_two py_int_superscript_two code by blast+
  from pending_cleared_once [OF history1_admin history1_pending,
      of ucd0 "''make 333 admin''" "''333''" ucd0]
  have four: "handle_message ucd0 (run fresh history1) 222 ''make 333 admin'' =
     ((run fresh history1)\<lparr>user_data := (user_data (run fresh history1))(222 := None)\<rparr>,
      [Reply ''Invalid user ID format. Please send a numeric user ID.'' None])"
    using garbage_not_digit [of ucd0] plain by simp
  show ?thesis
    using history1_admin history1_pending isdigit_superscript_two py_int_superscript_two
      garbage_not_digit [of ucd0] code one two three four
    by blast
qed

text \<open>
  C5.  An administrator with the pending action \<open>user_remove_admin\<close> sends a numeral, in
  the digits of any script, that names no administrator.  The handler only clears the
  pending action and replies that the user is not an admin: both sets and the roster
  file are as before and \<open>save_users\<close> is not called.
\<close>

theorem remove_admin_not_admin:
  "uid \<in> admin_users s \<Longrightarrow> user_data s uid = Some ''user_remove_admin'' \<Longrightarrow>
   isdigit U msg \<Longrightarrow> py_int U msg = Inr target \<Longrightarrow> target \<notin> admin_users s \<Longrightarrow>
   handle_message U s uid msg =
     (s\<lparr>user_data := (user_data s)(uid := None)\<rparr>,
      [Reply (cross_mark @ '' User '' @ str_int target @ '' is not an admin.'') None]) \<and>
   admin_users (fst (handle_message U s uid msg)) = admin_users s \<and>
   regular_users (fst (handle_message U s uid msg)) = regular_users s \<and>
   users_file (fst (handle_message U s uid msg)) = users_file s \<and>
   saves (snd (handle_message U s uid msg)) = 0"
  by (simp add: hm_some_target pa_remove_out saves_simps)

text \<open>At the numeral 333 written in ASCII digits and in Persian digits.\<close>

theorem remove_admin_not_admin_witness:
  "222 \<in> admin_users (run fresh history1) \<and>
   user_data (run fresh history1) 222 = Some ''user_remove_admin'' \<and>
   isdigit ucd0 ''333'' \<and> py_int ucd0 ''333'' = Inr 333 \<and>
   isdigit ucd0 persian_333 \<and> py_int ucd0 persian_333 = Inr 333 \<and>
   333 \<notin> admin_users (run fresh history1) \<and>
   snd (handle_message ucd0 (run fresh history1) 222 ''333'') =
     [Reply (cross_mark @ '' User 333 is not an admin.'') None] \<and>
   snd (handle_message ucd0 (run fresh history1) 222 persian_333) =
     [Reply (cross_mark @ '' User 333 is not an admin.'') None] \<and>
   admin_users (fst (handle_message ucd0 (run fresh history1) 222 persian_333)) = {222} \<and>
   regular_users (fst (handle_message ucd0 (run fresh history1) 222 persian_333)) = {333} \<and>
   users_file (fst (handle_message ucd0 (run fresh history1) 222 persian_333)) =
     UsersFile (Ids {222}) (Ids {333})"
proof -
  have out: "333 \<notin> admin_users (run fresh history1)"
    by (simp add: history1_admins)
  show ?thesis
    using remove_admin_not_admin [OF history1_admin history1_pending isdigit_333 py_int_333 out]
      remove_admin_not_admin [OF history1_admin history1_pending isdigit_persian_333
        py_int_persian_333 out]
      history1_admin history1_pending isdigit_333 [of ucd0] py_int_333 [of ucd0]
      isdigit_persian_333 py_int_persian_333 out
    by (simp add: str_int_333 history1_admins history1_regular history1_file)
qed

section \<open>Commands of a user who is not an administrator\<close>

text \<open>
  C4.  The claim: a user who is not an administrator gets the same fixed "not available"
  message from \<open>/admin\<close>, \<open>/stats\<close>, \<open>/logs\<close>, \<open>/users\<close> and \<open>/exit\<close>, and nothing is changed.
  On the code, as amended: \<open>/admin\<close>, \<open>/stats\<close>, \<open>/logs\<close> and \<open>/users\<close> answer
  \<open>This command is not available.\<close>, \<open>/exit\<close> answers \<open>You are not in admin mode.\<close>, and
  none of the five changes the state.
\<close>

theorem unauthorized_commands:
  "uid \<notin> admin_users s \<Longrightarrow>
   admin_command s uid = (s, [Reply ''This command is not available.'' None]) \<and>
   stats_command e s uid = (s, [Reply ''This command is not available.'' None]) \<and>
   logs_command s uid = (s, [Reply ''This command is not available.'' None]) \<and>
   users_command e s uid = (s, [Reply ''This command is not available.'' None]) \<and>
   exit_command s uid = (s, [Reply ''You are not in admin mode.'' None])"
  by (simp add: admin_command_def stats_command_def logs_command_def users_command_def
        exit_command_def not_available_def not_in_admin_mode_def)

lemma fresh_admins: "admin_users fresh = {}"
  by (simp add: fresh_def init_bot_def load_users_def)

theorem unauthorized_commands_witness:
  "111 \<notin> admin_users fresh \<and>
   stats_command env0 fresh 111 = (fresh, [Reply ''This command is not available.'' None]) \<and>
   exit_command fresh 111 = (fresh, [Reply ''You are not in admin mode.'' None])"
proof -
  have h: "111 \<notin> admin_users fresh" by (simp add: fresh_admins)
  show ?thesis using unauthorized_commands [OF h, of env0] h by simp
qed

text \<open>
  The claim as stated fails for \<open>/exit\<close>: user 111, not an administrator of a new
  deployment, is not answered with the message of the other four commands.
\<close>

theorem exit_command_reply_counterexample:
  "111 \<notin> admin_users fresh \<and>
   snd (exit_command fresh 111) \<noteq> [Reply ''This command is not available.'' None] \<and>
   snd (exit_command fresh 111) \<noteq> snd (admin_command fresh 111)"
  by (simp add: fresh_admins exit_command_def admin_command_def not_in_admin_mode_def
        not_available_def)

section \<open>Reminders\<close>
















section \<open>Statistics when the log cannot be read\<close>

lemma stats_text_not_no_data:
  "stats_text e ''Daily Statistics - '' stats \<noteq> no_data_text"
  "stats_text e (chart_icon @ '' Daily Statistics - '') stats \<noteq> no_data_text"
  by (simp_all add: stats_text_def no_data_text_def chart_icon_def)

text \<open>
  C7.  The claim: when the log file cannot be read or parsed, the statistics views answer
  with an explicit "no data" result and do not disclose the error.  On the code, as
  amended: both views catch the failure and answer \<open>Error getting stats: \<close> followed by
  the text of the exception, the inline view with its Back button; the state is
  unchanged.  \<open>No data available for today.\<close> is the answer exactly when the file is read
  and holds no entry for today.
\<close>

theorem stats_read_failure:
  "(log_file s = Unreadable err \<longrightarrow>
      show_stats_inline e s =
        [Edit (''Error getting stats: '' @ error_text err) (Some back_keyboard)] \<and>
      (uid \<in> admin_users s \<longrightarrow>
         stats_command e s uid =
           (s, [Reply (''Error getting stats: '' @ error_text err) None]))) \<and>
   (show_stats_inline e s = [Edit ''No data available for today.'' (Some back_keyboard)]) =
     (\<exists>logs. log_file s = Stored logs \<and> map_of logs (today e) = None) \<and>
   (uid \<in> admin_users s \<longrightarrow>
      (stats_command e s uid = (s, [Reply ''No data available for today.'' None])) =
        (\<exists>logs. log_file s = Stored logs \<and> map_of logs (today e) = None))"
proof (cases "log_file s")
  case (Unreadable x)
  then show ?thesis
    by (simp add: show_stats_inline_def stats_command_def)
next
  case (Stored logs)
  show ?thesis
  proof (cases "map_of logs (today e)")
    case None
    then show ?thesis using Stored
      by (simp add: show_stats_inline_def stats_command_def no_data_text_def)
  next
    case (Some stats)
    then show ?thesis
      using Stored stats_text_not_no_data [of e stats]
      by (simp add: show_stats_inline_def stats_command_def no_data_text_def)
  qed
qed

lemma broken_log:
  "log_file broken = Unreadable (JSONDecodeError ''Expecting value: line 1 column 1 (char 0)'')"
  by (simp add: broken_def)

lemma broken_admin: "222 \<in> admin_users broken"
  by (simp add: broken_def history1_admins)

lemma history1_log: "log_file (run fresh history1) = Stored []"
  by code_simp

text \<open>
  At the unreadable file of \<open>broken\<close>, and at the empty collection of a new deployment,
  which has no entry for today.
\<close>

theorem stats_read_failure_witness:
  "log_file broken = Unreadable (JSONDecodeError ''Expecting value: line 1 column 1 (char 0)'') \<and>
   222 \<in> admin_users broken \<and>
   show_stats_inline env0 broken =
     [Edit ''Error getting stats: Expecting value: line 1 column 1 (char 0)''
        (Some back_keyboard)] \<and>
   stats_command env0 broken 222 =
     (broken, [Reply ''Error getting stats: Expecting value: line 1 column 1 (char 0)'' None]) \<and>
   222 \<in> admin_users (run fresh history1) \<and>
   log_file (run fresh history1) = Stored [] \<and> map_of [] (today env0) = (None :: daily_log option) \<and>
   stats_command env0 (run fresh history1) 222 =
     (run fresh history1, [Reply ''No data available for today.'' None]) \<and>
   show_stats_inline env0 (run fresh history1) =
     [Edit ''No data available for today.'' (Some back_keyboard)]"
proof -
  have ex: "\<exists>logs. log_file (run fresh history1) = Stored logs \<and> map_of logs (today env0) = None"
    by (simp add: history1_log)
  from stats_read_failure [of "run fresh history1" err env0 222] ex history1_admin
  have nodata: "stats_command env0 (run fresh history1) 222 =
     (run fresh history1, [Reply ''No data available for today.'' None])"
    and nodata_inline: "show_stats_inline env0 (run fresh history1) =
     [Edit ''No data available for today.'' (Some back_keyboard)]"
    by blast+
  from stats_read_failure [of broken
      "JSONDecodeError ''Expecting value: line 1 column 1 (char 0)''" env0 222]
    broken_log broken_admin
  have failed: "show_stats_inline env0 broken =
     [Edit ''Error getting stats: Expecting value: line 1 column 1 (char 0)''
        (Some back_keyboard)] \<and>
   stats_command env0 broken 222 =
     (broken, [Reply ''Error getting stats: Expecting value: line 1 column 1 (char 0)'' None])"
    by simp
  show ?thesis
    using failed nodata nodata_inline broken_log broken_admin history1_admin history1_log
    by simp
qed

text \<open>
  The claim as stated fails: with a log file that is not JSON, administrator 222 is shown
  the parser's message, not \<open>No data available for today.\<close>
\<close>

theorem stats_read_failure_counterexample:
  "snd (stats_command env0 broken 222) =
     [Reply ''Error getting stats: Expecting value: line 1 column 1 (char 0)'' None] \<and>
   snd (stats_command env0 broken 222) \<noteq> [Reply ''No data available for today.'' None] \<and>
   show_stats_inline env0 broken \<noteq> [Edit ''No data available for today.'' (Some back_keyboard)]"
  using broken_admin
  by (simp add: stats_command_def show_stats_inline_def broken_log)

section \<open>A "yes" without administrators\<close>

lemma log_response_effects:
  "snd (log_response e store uid name resp ts) =
     [LogInfo (''Logged '' @ resp @ '' response from user '' @ name @
               '' ('' @ str_int uid @ '')'')]"
  by (simp add: log_response_def Let_def)

lemma handle_yes_choice_no_admins:
  "admin_users s = {} \<Longrightarrow>
   snd (handle_yes_choice e s u) =
     [LogInfo (''Logged yes response from user '' @ user_info u @
               '' ('' @ str_int (tg_id u) @ '')''),
      Edit thanks_text None] @ no_admins_fallback (admin_message u)"
  using log_response_effects [of e "log_file s" "tg_id u" "user_info u" "''yes''" None]
  by (simp add: handle_yes_choice_def Let_def split_beta)

lemma hc_yes:
  "handle_callback e s u ''yes'' =
     (fst (handle_yes_choice e
        (if user_states s (tg_id u) = None
         then s\<lparr>user_states := (user_states s)(tg_id u \<mapsto> ''active'')\<rparr> else s) u),
      Answer None # snd (handle_yes_choice e
        (if user_states s (tg_id u) = None
         then s\<lparr>user_states := (user_states s)(tg_id u \<mapsto> ''active'')\<rparr> else s) u))"
  by (simp add: handle_callback_def Let_def split_beta)

text \<open>
  C8.  A user selects "yes" while the set of administrators is empty.  No message is sent
  with \<open>send_message\<close>; the notification, with the user's handle or identifier, names
  and identifier, is written to the log under \<open>ADMIN NOTIFICATION (no admins set)\<close> and
  printed.
\<close>

theorem yes_without_admins:
  "admin_users s = {} \<Longrightarrow>
   (let who = (case tg_username u of
                 None \<Rightarrow> ''User ID: '' @ str_int (tg_id u)
               | Some n \<Rightarrow> if n = [] then ''User ID: '' @ str_int (tg_id u) else ''@'' @ n);
        notice = ''Notification from bot:\<newline>\<newline>User '' @ who @
                 '' has selected 'Yes'!\<newline>\<newline>User details:\<newline>- Name: '' @
                 first_name u @ '' '' @ (case last_name u of None \<Rightarrow> [] | Some l \<Rightarrow> l) @
                 ''\<newline>- Username: '' @ who @
                 ''\<newline>- User ID: '' @ str_int (tg_id u);
        trace = [LogInfo (''Logged yes response from user '' @ who @
                          '' ('' @ str_int (tg_id u) @ '')''),
                 Edit thanks_text None,
                 LogInfo (''ADMIN NOTIFICATION (no admins set): '' @ notice),
                 Print (''\<newline>'' @ replicate 50 CHR ''=''),
                 Print ''ADMIN NOTIFICATION:'',
                 Print notice,
                 Print ''No admin users found. Use /startadmin to become an admin.'',
                 Print (replicate 50 CHR ''='' @ ''\<newline>'')]
    in filter is_send (snd (handle_callback e s u ''yes'')) = [] \<and>
       LogInfo (''ADMIN NOTIFICATION (no admins set): '' @ notice)
         \<in> set (snd (handle_callback e s u ''yes'')) \<and>
       snd (handle_callback e s u ''yes'') = Answer None # trace \<and>
       filter is_send (snd (handle_yes_choice e s u)) = [] \<and>
       snd (handle_yes_choice e s u) = trace)"
proof -
  assume a: "admin_users s = {}"
  let ?s0 = "if user_states s (tg_id u) = None
         then s\<lparr>user_states := (user_states s)(tg_id u \<mapsto> ''active'')\<rparr> else s"
  have a0: "admin_users ?s0 = {}" using a by simp
  show ?thesis
    by (simp add: hc_yes handle_yes_choice_no_admins [OF a] handle_yes_choice_no_admins [OF a0]
          no_admins_fallback_def admin_message_def user_info_def Let_def)
qed

text \<open>
  At user 111, who has the handle \<open>u\<close> and no last name, in a new deployment: the text
  that is logged.
\<close>

theorem yes_without_admins_witness:
  "admin_users fresh = {} \<and>
   filter is_send (snd (handle_callback env0 fresh user111 ''yes'')) = [] \<and>
   LogInfo (''ADMIN NOTIFICATION (no admins set): Notification from bot:\<newline>\<newline>'' @
            ''User @u has selected 'Yes'!\<newline>\<newline>User details:\<newline>'' @
            ''- Name: Sara \<newline>- Username: @u\<newline>- User ID: 111'')
     \<in> set (snd (handle_callback env0 fresh user111 ''yes''))"
proof -
  have a: "admin_users fresh = {}"
    by (simp add: fresh_def init_bot_def load_users_def)
  show ?thesis
    using yes_without_admins [OF a, of user111 env0] a
    by (simp add: Let_def user111_def str_int_111)
qed

section \<open>Listing the log dates\<close>

lemma divmod_less:
  "0 < k \<Longrightarrow> ((m::nat) < n) = (m div k < n div k \<or> (m div k = n div k \<and> m mod k < n mod k))"
proof -
  assume k: "0 < k"
  have m: "m = k * (m div k) + m mod k" and n: "n = k * (n div k) + n mod k" by simp_all
  show ?thesis
  proof (cases "m div k = n div k")
    case True
    then show ?thesis using m n by (metis nat_add_left_cancel_less less_irrefl)
  next
    case False
    show ?thesis
    proof (cases "m div k < n div k")
      case True
      then have "m < n" by (metis div_le_mono not_le)
      then show ?thesis using True by simp
    next
      case F2: False
      with False have "n div k < m div k" by simp
      then have "n < m" by (metis div_le_mono not_le)
      then show ?thesis using F2 False by simp
    qed
  qed
qed

lemma divmod_eq: "((m::nat) = n) = (m div k = n div k \<and> m mod k = n mod k)"
  by (metis div_mult_mod_eq)

lemma lex_append_same_length:
  "length xs = length ys \<Longrightarrow>
   ((xs @ us :: 'a::linorder list) < ys @ vs) = (xs < ys \<or> (xs = ys \<and> us < vs))"
  by (induction xs ys rule: list_induct2) auto

lemma digit_char_less: "a < 10 \<Longrightarrow> b < 10 \<Longrightarrow> (digit_char a < digit_char b) = (a < b)"
  by (simp add: digit_char_def less_char_def)

lemma digit_char_eq: "a < 10 \<Longrightarrow> b < 10 \<Longrightarrow> (digit_char a = digit_char b) = (a = b)"
  by (metis digit_val_digit_char)

lemma two_digits_less:
  "m < 100 \<Longrightarrow> n < 100 \<Longrightarrow> (two_digits m < two_digits n) = (m < n)"
proof -
  assume a: "m < 100" "n < 100"
  then have b: "m div 10 < 10" "n div 10 < 10" "m mod 10 < 10" "n mod 10 < 10" by auto
  have "(two_digits m < two_digits n) =
        (m div 10 < n div 10 \<or> (m div 10 = n div 10 \<and> m mod 10 < n mod 10))"
    using b by (simp add: two_digits_def digit_char_less digit_char_eq)
  also have "\<dots> = (m < n)" using divmod_less [of 10 m n] by simp
  finally show ?thesis .
qed

lemma two_digits_eq: "m < 100 \<Longrightarrow> n < 100 \<Longrightarrow> (two_digits m = two_digits n) = (m = n)"
proof -
  assume a: "m < 100" "n < 100"
  then have b: "m div 10 < 10" "n div 10 < 10" "m mod 10 < 10" "n mod 10 < 10" by auto
  have "(two_digits m = two_digits n) = (m div 10 = n div 10 \<and> m mod 10 = n mod 10)"
    using b by (simp add: two_digits_def digit_char_eq)
  also have "\<dots> = (m = n)" using divmod_eq [of m n 10] by simp
  finally show ?thesis .
qed

lemma length_two_digits: "length (two_digits n) = 2"
  by (simp add: two_digits_def)

lemma four_digits_less:
  "m < 10000 \<Longrightarrow> n < 10000 \<Longrightarrow> (four_digits m < four_digits n) = (m < n)"
proof -
  assume a: "m < 10000" "n < 10000"
  then have b: "m div 100 < 100" "n div 100 < 100" "m mod 100 < 100" "n mod 100 < 100" by auto
  have "(four_digits m < four_digits n) =
        (m div 100 < n div 100 \<or> (m div 100 = n div 100 \<and> m mod 100 < n mod 100))"
    using b
    by (simp add: four_digits_def lex_append_same_length length_two_digits
          two_digits_less two_digits_eq)
  also have "\<dots> = (m < n)" using divmod_less [of 100 m n] by simp
  finally show ?thesis .
qed

lemma four_digits_eq:
  "m < 10000 \<Longrightarrow> n < 10000 \<Longrightarrow> (four_digits m = four_digits n) = (m = n)"
proof -
  assume a: "m < 10000" "n < 10000"
  then have b: "m div 100 < 100" "n div 100 < 100" "m mod 100 < 100" "n mod 100 < 100" by auto
  have "(four_digits m = four_digits n) = (m div 100 = n div 100 \<and> m mod 100 = n mod 100)"
    using b by (simp add: four_digits_def length_two_digits two_digits_eq)
  also have "\<dots> = (m = n)" using divmod_eq [of m n 100] by simp
  finally show ?thesis .
qed

lemma length_four_digits: "length (four_digits n) = 4"
  by (simp add: four_digits_def length_two_digits)

text \<open>
  ISO dates compare as strings the way the dates compare: by year, then month, then day.
\<close>

lemma isoformat_less:
  "y < 10000 \<Longrightarrow> y' < 10000 \<Longrightarrow> m < 100 \<Longrightarrow> m' < 100 \<Longrightarrow> d < 100 \<Longrightarrow> d' < 100 \<Longrightarrow>
   (isoformat y m d < isoformat y' m' d') =
     (y < y' \<or> (y = y' \<and> (m < m' \<or> (m = m' \<and> d < d'))))"
proof -
  assume a: "y < 10000" "y' < 10000" "m < 100" "m' < 100" "d < 100" "d' < 100"
  have tail: "(two_digits m @ ''-'' @ two_digits d < two_digits m' @ ''-'' @ two_digits d') =
      (m < m' \<or> (m = m' \<and> d < d'))"
    using a
    by (simp add: lex_append_same_length length_two_digits two_digits_less two_digits_eq)
  have "(isoformat y m d < isoformat y' m' d') =
      (four_digits y < four_digits y' \<or> (four_digits y = four_digits y' \<and>
         two_digits m @ ''-'' @ two_digits d < two_digits m' @ ''-'' @ two_digits d'))"
    by (simp add: isoformat_def lex_append_same_length length_four_digits)
  then show ?thesis using a tail by (simp add: four_digits_less four_digits_eq)
qed

lemma isoformat_example: "isoformat 2024 5 1 = ''2024-05-01''"
  by code_simp

lemma date_lines_present:
  "d \<in> set (listed_dates logs) \<Longrightarrow> \<exists>stats. map_of logs d = Some stats"
proof -
  assume "d \<in> set (listed_dates logs)"
  then have "d \<in> set (map fst logs)"
    by (auto simp: listed_dates_def dest: in_set_takeD)
  then show ?thesis
    by (metis map_of_eq_None_iff not_None_eq set_map)
qed

lemma listed_dates_length: "length (listed_dates logs) = min 10 (length logs)"
  by (simp add: listed_dates_def min_def)

lemma listed_dates_subset: "set (listed_dates logs) \<subseteq> set (map fst logs)"
  by (auto simp: listed_dates_def dest: in_set_takeD)

lemma desc_sorted: "sorted_wrt (\<lambda>a b. b \<le> a) (rev (sort xs))"
  by (simp add: sorted_wrt_rev)

lemma listed_dates_descending: "sorted_wrt (\<lambda>a b. b \<le> a) (listed_dates logs)"
proof -
  have "sorted_wrt (\<lambda>a b. b \<le> a) (take 10 (rev (sort (map fst logs))) @ drop 10 (rev (sort (map fst logs))))"
    using desc_sorted [of "map fst logs"] by simp
  then show ?thesis unfolding listed_dates_def sorted_wrt_append by blast
qed

lemma listed_dates_latest:
  "d \<in> set (listed_dates logs) \<Longrightarrow> k \<in> set (map fst logs) \<Longrightarrow>
   k \<notin> set (listed_dates logs) \<Longrightarrow> k \<le> d"
proof -
  assume d: "d \<in> set (listed_dates logs)" and k: "k \<in> set (map fst logs)"
    and n: "k \<notin> set (listed_dates logs)"
  let ?xs = "rev (sort (map fst logs))"
  have "set ?xs = set (take 10 ?xs) \<union> set (drop 10 ?xs)"
    by (metis append_take_drop_id set_append)
  moreover have "k \<in> set ?xs" using k by simp
  moreover have "k \<notin> set (take 10 ?xs)" using n by (simp add: listed_dates_def)
  ultimately have kd: "k \<in> set (drop 10 ?xs)" by blast
  have "sorted_wrt (\<lambda>a b. b \<le> a) (take 10 ?xs @ drop 10 ?xs)"
    using desc_sorted [of "map fst logs"] by simp
  then have "\<forall>x\<in>set (take 10 ?xs). \<forall>y\<in>set (drop 10 ?xs). y \<le> x"
    unfolding sorted_wrt_append by blast
  then show ?thesis using d kd by (simp add: listed_dates_def)
qed

lemma listed_dates_distinct:
  "distinct (map fst logs) \<Longrightarrow> distinct (listed_dates logs)"
  by (simp add: listed_dates_def)

text \<open>
  C9.  For an administrator and a readable, non-empty collection, \<open>/logs\<close> and the inline
  view write one entry per listed date, in the order of the list.  The list is the keys
  of the collection sorted in descending order and cut after ten: it has at most ten
  dates, each a key of the collection, each no earlier than the next, and every key left
  out is no later than every listed date.  The order is the order of strings, which for
  ISO dates is the order of the dates (\<open>isoformat_less\<close>): the list is the ten most recent
  dates, the most recent first.
\<close>

theorem log_dates_latest_first:
  "uid \<in> admin_users s \<Longrightarrow> log_file s = Stored logs \<Longrightarrow> logs \<noteq> [] \<Longrightarrow>
   logs_command s uid =
     (s, [Reply (''Available Log Dates:\<newline>\<newline>'' @
                 concat (map (date_lines logs) (listed_dates logs))) None]) \<and>
   show_logs_inline s =
     [Edit (folder_icon @ '' Available Log Dates:\<newline>\<newline>'' @
            concat (map (date_lines logs) (listed_dates logs))) (Some back_keyboard)] \<and>
   listed_dates logs = take 10 (rev (sort (map fst logs))) \<and>
   length (listed_dates logs) = min 10 (length logs) \<and>
   set (listed_dates logs) \<subseteq> set (map fst logs) \<and>
   sorted_wrt (\<lambda>a b. b \<le> a) (listed_dates logs) \<and>
   (\<forall>d \<in> set (listed_dates logs). \<forall>k \<in> set (map fst logs).
      k \<notin> set (listed_dates logs) \<longrightarrow> k \<le> d) \<and>
   (\<forall>d \<in> set (listed_dates logs). \<exists>stats. map_of logs d = Some stats \<and>
      date_lines logs d = d @ ''\<newline>'' @
          ''  Total: '' @ str_int (total_responses stats) @
          '' | Yes: '' @ str_int (yes_responses stats) @
          '' | No: '' @ str_int (no_responses stats) @ ''\<newline>\<newline>'')"
proof -
  assume a: "uid \<in> admin_users s" and l: "log_file s = Stored logs" and n: "logs \<noteq> []"
  have cmd: "logs_command s uid =
     (s, [Reply (''Available Log Dates:\<newline>\<newline>'' @
                 concat (map (date_lines logs) (listed_dates logs))) None])"
    using a l n by (simp add: logs_command_def dates_text_def)
  have inl: "show_logs_inline s =
     [Edit (folder_icon @ '' Available Log Dates:\<newline>\<newline>'' @
            concat (map (date_lines logs) (listed_dates logs))) (Some back_keyboard)]"
    using l n by (simp add: show_logs_inline_def dates_text_def)
  have latest: "\<forall>d \<in> set (listed_dates logs). \<forall>k \<in> set (map fst logs).
      k \<notin> set (listed_dates logs) \<longrightarrow> k \<le> d"
    using listed_dates_latest by blast
  have lines: "\<forall>d \<in> set (listed_dates logs). \<exists>stats. map_of logs d = Some stats \<and>
      date_lines logs d = d @ ''\<newline>'' @
          ''  Total: '' @ str_int (total_responses stats) @
          '' | Yes: '' @ str_int (yes_responses stats) @
          '' | No: '' @ str_int (no_responses stats) @ ''\<newline>\<newline>''"
  proof
    fix d assume "d \<in> set (listed_dates logs)"
    then obtain stats where "map_of logs d = Some stats" using date_lines_present by blast
    then show "\<exists>stats. map_of logs d = Some stats \<and>
      date_lines logs d = d @ ''\<newline>'' @
          ''  Total: '' @ str_int (total_responses stats) @
          '' | Yes: '' @ str_int (yes_responses stats) @
          '' | No: '' @ str_int (no_responses stats) @ ''\<newline>\<newline>''"
      by (simp add: date_lines_def)
  qed
  have def: "listed_dates logs = take 10 (rev (sort (map fst logs)))"
    by (simp add: listed_dates_def)
  show ?thesis
    using cmd inl def listed_dates_length listed_dates_subset listed_dates_descending latest lines
    by blast
qed

lemma twelve_listed:
  "listed_dates twelve_days =
     [''2024-05-01'', ''2024-04-30'', ''2024-04-29'', ''2024-04-28'', ''2024-04-27'',
      ''2024-04-26'', ''2024-04-25'', ''2024-04-24'', ''2024-04-23'', ''2024-04-22'']"
  by code_simp

lemma archive_admin: "222 \<in> admin_users archive"
  by (simp add: archive_def history1_admins)

lemma archive_log: "log_file archive = Stored twelve_days"
  by (simp add: archive_def)

lemma twelve_nonempty: "twelve_days \<noteq> []"
  by (simp add: twelve_days_def)

theorem log_dates_latest_first_witness:
  "222 \<in> admin_users archive \<and> log_file archive = Stored twelve_days \<and> twelve_days \<noteq> [] \<and>
   listed_dates twelve_days =
     [''2024-05-01'', ''2024-04-30'', ''2024-04-29'', ''2024-04-28'', ''2024-04-27'',
      ''2024-04-26'', ''2024-04-25'', ''2024-04-24'', ''2024-04-23'', ''2024-04-22''] \<and>
   length (listed_dates twelve_days) = min 10 (length twelve_days) \<and>
   snd (logs_command archive 222) =
     [Reply (''Available Log Dates:\<newline>\<newline>'' @
             concat (map (date_lines twelve_days) (listed_dates twelve_days))) None] \<and>
   ''2024-04-22'' \<in> set (listed_dates twelve_days) \<and>
   ''2024-04-21'' \<in> set (map fst twelve_days) \<and>
   ''2024-04-21'' \<notin> set (listed_dates twelve_days) \<and>
   ''2024-04-21'' \<le> ''2024-04-22''"
proof -
  have k: "''2024-04-21'' \<in> set (map fst twelve_days)"
    by (simp add: twelve_days_def day_of_def)
  have d: "''2024-04-22'' \<in> set (listed_dates twelve_days)"
    and n: "''2024-04-21'' \<notin> set (listed_dates twelve_days)"
    by (simp_all add: twelve_listed)
  from log_dates_latest_first [OF archive_admin archive_log twelve_nonempty]
  have cmd: "logs_command archive 222 =
     (archive, [Reply (''Available Log Dates:\<newline>\<newline>'' @
                 concat (map (date_lines twelve_days) (listed_dates twelve_days))) None])"
    and len: "length (listed_dates twelve_days) = min 10 (length twelve_days)"
    and latest: "\<forall>d \<in> set (listed_dates twelve_days). \<forall>k \<in> set (map fst twelve_days).
      k \<notin> set (listed_dates twelve_days) \<longrightarrow> k \<le> d"
    by blast+
  from latest d k n have le: "''2024-04-21'' \<le> ''2024-04-22''" by blast
  have c: "snd (logs_command archive 222) =
     [Reply (''Available Log Dates:\<newline>\<newline>'' @
             concat (map (date_lines twelve_days) (listed_dates twelve_days))) None]"
    by (simp only: cmd snd_conv)
  show ?thesis
    using archive_admin archive_log twelve_nonempty twelve_listed len c d k n le
    by blast
qed

end
